theory Spec2Isabelle
  imports Main
begin

section \<open>Strings and errors\<close>

text \<open>
  A JavaScript string is modelled as a \<^typ>\<open>string\<close>, one character per UTF-16 code unit,
  restricted to the code units 0 to 255. Of the line terminators of ECMAScript only
  LF and CR lie in that range, and of its white space only TAB, LF, VT, FF, CR, SP and
  NBSP.
\<close>

definition is_line_terminator :: "char \<Rightarrow> bool" where
  "is_line_terminator c \<longleftrightarrow> c = CHR 0x0A \<or> c = CHR 0x0D"

definition is_white_space :: "char \<Rightarrow> bool" where
  "is_white_space c \<longleftrightarrow>
     c = CHR 0x09 \<or> c = CHR 0x0A \<or> c = CHR 0x0B \<or> c = CHR 0x0C \<or> c = CHR 0x0D \<or>
     c = CHR 0x20 \<or> c = CHR 0xA0"

text \<open>\<open>String.prototype.trim\<close>: white space removed from both ends.\<close>

definition trim :: "string \<Rightarrow> string" where
  "trim s = rev (dropWhile is_white_space (rev (dropWhile is_white_space s)))"

text \<open>Truthiness of a string that may be \<open>undefined\<close>: defined and not empty.\<close>

fun truthy :: "string option \<Rightarrow> bool" where
  "truthy None = False"
| "truthy (Some s) = (s \<noteq> [])"

text \<open>
  A thrown value: \<open>new Error(message)\<close>, the \<open>TypeError\<close> of a property read on
  \<open>undefined\<close>, or whatever the generation service rejects with.
\<close>

datatype error = Error string | TypeError | ServiceFailure string

text \<open>\<open>try { body } catch (error) { handler }\<close> on a body that returns or throws.\<close>

definition try_catch :: "error + 'a \<Rightarrow> (error \<Rightarrow> error + 'a) \<Rightarrow> error + 'a" where
  "try_catch body handler = (case body of Inl e \<Rightarrow> handler e | Inr x \<Rightarrow> Inr x)"

section \<open>The generation client (services/geminiService.ts)\<close>

text \<open>
  The response of \<open>ai.models.generateContent\<close>, as far as the client reads it: every
  level that the client guards with \<open>?.\<close> or \<open>&&\<close> may be \<open>undefined\<close>.
\<close>

datatype inline_data = InlineData "string option" "string option"
  \<comment> \<open>\<open>mimeType\<close>, \<open>data\<close>\<close>
datatype part = Part "inline_data option"
  \<comment> \<open>\<open>inlineData\<close>\<close>
datatype content = Content "part list option"
  \<comment> \<open>\<open>parts\<close>\<close>
datatype candidate = Candidate "content option"
  \<comment> \<open>\<open>content\<close>\<close>
datatype response = Response "candidate list option"
  \<comment> \<open>\<open>candidates\<close>\<close>

text \<open>\<open>response.candidates?.[0]?.content?.parts || []\<close>\<close>

fun response_parts :: "response \<Rightarrow> part list" where
  "response_parts (Response None) = []"
| "response_parts (Response (Some [])) = []"
| "response_parts (Response (Some (Candidate None # cs))) = []"
| "response_parts (Response (Some (Candidate (Some (Content None)) # cs))) = []"
| "response_parts (Response (Some (Candidate (Some (Content (Some ps))) # cs))) = ps"

text \<open>A value interpolated into a template literal: \<open>undefined\<close> prints as itself.\<close>

fun interpolate :: "string option \<Rightarrow> string" where
  "interpolate None = ''undefined''"
| "interpolate (Some s) = s"

text \<open>
  The loop over the parts, shared in shape by \<open>generateStoryImage\<close> and
  \<open>editStoryImage\<close>: the first part with \<open>inlineData\<close> and a truthy \<open>data\<close> is
  returned as a data URL.
\<close>

fun extract_image :: "part list \<Rightarrow> string option" where
  "extract_image [] = None"
| "extract_image (Part None # ps) = extract_image ps"
| "extract_image (Part (Some (InlineData m d)) # ps) =
     (if truthy d then Some (''data:'' @ interpolate m @ '';base64,'' @ interpolate d)
      else extract_image ps)"

text \<open>
  The requests sent to the service. The service is opaque: what it answers is a
  parameter of the model (\<open>Inl\<close> when the call rejects).
\<close>

datatype request =
    StoryRequest string
  | ImageRequest string
  | EditRequest string string string
      \<comment> \<open>\<open>inlineData.data\<close>, \<open>inlineData.mimeType\<close>, \<open>text\<close>\<close>

definition image_request :: "string \<Rightarrow> request" where
  "image_request prompt =
     ImageRequest (''A cute, flat vector style children's book illustration: '' @ prompt)"

definition placeholder_url :: "string \<Rightarrow> string" where
  "placeholder_url random = ''https://picsum.photos/800/800?random='' @ random"

text \<open>
  \<open>generateStoryImage\<close>: the body of its \<open>try\<close>, given the answer to the request,
  and the whole function, whose \<open>catch\<close> returns the placeholder. \<open>random\<close> is the
  printed value of \<open>Math.random()\<close>.
\<close>

definition generateStoryImage_try :: "error + response \<Rightarrow> error + string" where
  "generateStoryImage_try answer =
     (case answer of
        Inl e \<Rightarrow> Inl e
      | Inr response \<Rightarrow>
          (case extract_image (response_parts response) of
             Some url \<Rightarrow> Inr url
           | None \<Rightarrow> Inl (Error ''No image data found in response'')))"

definition generateStoryImage :: "error + response \<Rightarrow> string \<Rightarrow> error + string" where
  "generateStoryImage answer random =
     try_catch (generateStoryImage_try answer) (\<lambda>error. Inr (placeholder_url random))"

text \<open>
  The regular expression \<open>/^data:(.+);base64,(.+)$/\<close> of \<open>editStoryImage\<close>, as a
  backtracking matcher. \<open>.\<close> matches any character but a line terminator; the first
  group is greedy, so its longest candidate is tried first.
\<close>

fun strip_literal :: "string \<Rightarrow> string \<Rightarrow> string option" where
  "strip_literal [] s = Some s"
| "strip_literal (c # cs) [] = None"
| "strip_literal (c # cs) (d # ds) = (if c = d then strip_literal cs ds else None)"

definition dot_plus :: "string \<Rightarrow> bool" where
  "dot_plus s \<longleftrightarrow> s \<noteq> [] \<and> list_all (\<lambda>c. \<not> is_line_terminator c) s"

fun match_groups :: "nat \<Rightarrow> string \<Rightarrow> (string \<times> string) option" where
  "match_groups 0 s = None"
| "match_groups (Suc k) s =
     (if dot_plus (take (Suc k) s) then
        (case strip_literal '';base64,'' (drop (Suc k) s) of
           None \<Rightarrow> match_groups k s
         | Some rest \<Rightarrow>
             if dot_plus rest then Some (take (Suc k) s, rest) else match_groups k s)
      else match_groups k s)"

definition match_data_url :: "string \<Rightarrow> string list option" where
  "match_data_url s =
     (case strip_literal ''data:'' s of
        None \<Rightarrow> None
      | Some r \<Rightarrow>
          (case match_groups (length r) r of
             None \<Rightarrow> None
           | Some (m, d) \<Rightarrow> Some [s, m, d]))"

definition edit_request :: "string \<Rightarrow> string \<Rightarrow> string \<Rightarrow> request" where
  "edit_request base64Data mimeType prompt =
     EditRequest base64Data mimeType
       (''Edit this illustration: '' @ prompt @
        ''. Keep the style consistent (cute, flat vector children's book style).'')"

text \<open>
  \<open>editStoryImage\<close> in two parts. Up to the call of the service it either throws or
  yields the request it sends; after the answer, it extracts the image or throws, and its
  \<open>catch\<close> rethrows.
\<close>

definition editStoryImage_request :: "string \<Rightarrow> string \<Rightarrow> error + request" where
  "editStoryImage_request imageDataUrl prompt =
     (case match_data_url imageDataUrl of
        None \<Rightarrow> Inl (Error ''Invalid image data URL format'')
      | Some matches \<Rightarrow>
          if length matches \<noteq> 3 then Inl (Error ''Invalid image data URL format'')
          else Inr (edit_request (matches ! 2) (matches ! 1) prompt))"

definition editStoryImage_try :: "error + response \<Rightarrow> error + string" where
  "editStoryImage_try answer =
     (case answer of
        Inl e \<Rightarrow> Inl e
      | Inr response \<Rightarrow>
          (case extract_image (response_parts response) of
             Some url \<Rightarrow> Inr url
           | None \<Rightarrow> Inl (Error ''No image data found in edit response'')))"

definition editStoryImage_answer :: "error + response \<Rightarrow> error + string" where
  "editStoryImage_answer answer = try_catch (editStoryImage_try answer) (\<lambda>error. Inl error)"

text \<open>
  The whole of \<open>editStoryImage\<close> against a service \<open>svc\<close>: the result, and the list
  of requests it sent.
\<close>

definition editStoryImage ::
  "(request \<Rightarrow> error + response) \<Rightarrow> string \<Rightarrow> string \<Rightarrow> (error + string) \<times> request list" where
  "editStoryImage svc imageDataUrl prompt =
     (case editStoryImage_request imageDataUrl prompt of
        Inl e \<Rightarrow> (Inl e, [])
      | Inr req \<Rightarrow> (editStoryImage_answer (svc req), [req]))"

text \<open>The shape \<open>data:<mime>;base64,<payload>\<close> of the specification.\<close>

definition data_uri_shape :: "string \<Rightarrow> bool" where
  "data_uri_shape s \<longleftrightarrow>
     (\<exists>mime payload. mime \<noteq> [] \<and> payload \<noteq> [] \<and> s = ''data:'' @ mime @ '';base64,'' @ payload)"

section \<open>The application (App.tsx, in its two variants)\<close>

datatype AppState = SETUP | LOADING_STORY | READING | FINISHED

record StoryPage =
  page_text :: string
  imageDescription :: string
  imageUrl :: "string option"

record Story =
  title :: string
  pages :: "StoryPage list"

text \<open>
  The repository holds the component twice: \<open>cvc-story-magic/App.tsx\<close> and
  \<open>nano_app/story-magic/src/App.tsx\<close>. They differ in \<open>handleRestart\<close> and in the
  \<open>catch\<close> of \<open>handleGenerateStory\<close>; the variant is a parameter of those two.
\<close>

datatype variant = CVC | Nano

text \<open>
  An awaited call that has not settled yet, with the values that the closure of its
  continuation holds: a handler sees the state of the render that created it.
  \<^item> \<open>StoryTask\<close>: \<open>handleGenerateStory\<close> awaiting \<open>generateStoryContent(topic)\<close>;
    it holds \<open>topic\<close>, and the \<open>cachedImages\<close> and \<open>currentPageIndex\<close> that its
    \<open>fetchImageForPage\<close> reads.
  \<^item> \<open>FetchTask\<close>: \<open>fetchImageForPage\<close> awaiting \<open>generateStoryImage(prompt)\<close>; it
    holds \<open>index\<close> and its \<open>currentPageIndex\<close>.
  \<^item> \<open>EditTask\<close>: \<open>handleEditImage\<close> awaiting \<open>editStoryImage\<close>; it holds its
    \<open>currentPageIndex\<close>.
\<close>

datatype task =
    StoryTask request string "int \<rightharpoonup> string" int
  | FetchTask request int int
  | EditTask request int

fun is_StoryTask :: "task \<Rightarrow> bool" where
  "is_StoryTask (StoryTask req t c i) = True"
| "is_StoryTask (FetchTask req i c) = False"
| "is_StoryTask (EditTask req c) = False"

text \<open>
  The state of the component: its eight \<open>useState\<close> cells, the calls in flight, and the
  messages shown with \<open>alert\<close> (latest first).
\<close>

record app =
  appState :: AppState
  topic :: string
  story :: "Story option"
  currentPageIndex :: int
  isLoadingImage :: bool
  cachedImages :: "int \<rightharpoonup> string"
  editPrompt :: string
  isEditingImage :: bool
  inFlight :: "task list"
  alerts :: "string list"

definition init :: app where
  "init = \<lparr> appState = SETUP, topic = [], story = None, currentPageIndex = 0,
            isLoadingImage = False, cachedImages = Map.empty, editPrompt = [],
            isEditingImage = False, inFlight = [], alerts = [] \<rparr>"

text \<open>\<open>xs[i]\<close> for a number \<open>i\<close>: \<open>undefined\<close> out of range.\<close>

definition at_index :: "'a list \<Rightarrow> int \<Rightarrow> 'a option" where
  "at_index xs i = (if 0 \<le> i \<and> i < int (length xs) then Some (xs ! nat i) else None)"

definition handleRestart :: "variant \<Rightarrow> app \<Rightarrow> app" where
  "handleRestart v s =
     s\<lparr> appState := SETUP, story := None, currentPageIndex := 0,
        cachedImages := Map.empty, topic := [],
        editPrompt := (case v of CVC \<Rightarrow> [] | Nano \<Rightarrow> ''A funny cat who is a fix-it all.''),
        isEditingImage := False \<rparr>"

text \<open>
  \<open>fetchImageForPage\<close> up to its \<open>await\<close>. Its first two arguments are the
  \<open>cachedImages\<close> and \<open>currentPageIndex\<close> of its closure.
\<close>

definition fetchImageForPage ::
  "(int \<rightharpoonup> string) \<Rightarrow> int \<Rightarrow> int \<Rightarrow> string \<Rightarrow> app \<Rightarrow> app" where
  "fetchImageForPage cachedImages' currentPageIndex' index prompt s =
     (if truthy (cachedImages' index) then s
      else (if index = currentPageIndex' then s\<lparr> isLoadingImage := True \<rparr> else s)
             \<lparr> inFlight := inFlight s @ [FetchTask (image_request prompt) index currentPageIndex'] \<rparr>)"

text \<open>
  \<open>fetchImageForPage\<close> from the answer of the service on: \<open>generateStoryImage\<close>
  finishes, the cache is written with the functional update
  \<open>prev => ({ ...prev, [index]: imageUrl })\<close>, and \<open>finally\<close> clears the loading flag.
\<close>

definition fetchImageForPage_settled ::
  "int \<Rightarrow> int \<Rightarrow> error + response \<Rightarrow> string \<Rightarrow> app \<Rightarrow> app" where
  "fetchImageForPage_settled index currentPageIndex' answer random s =
     (let s1 = (case generateStoryImage answer random of
                  Inr imageUrl' \<Rightarrow> s\<lparr> cachedImages := (cachedImages s)(index \<mapsto> imageUrl') \<rparr>
                | Inl e \<Rightarrow> s)
      in if index = currentPageIndex' then s1\<lparr> isLoadingImage := False \<rparr> else s1)"

definition placeholderImagePayload :: string where
  "placeholderImagePayload =
     ''iVBORw0KGgoAAAANSUhEUgAAARsAAACyCAMAAABFl5uBAAAB11BMVEX39/f7qRkAAAAFBQUFBAkoKCj7'' @
     ''+/v19fX5+fn+/v4ICAj8qBr7qhEAAAj/pB4AAAX7pyD4rBP5rSH5qR6mfC2leCX8pyCbdjEAABD/ox0T'' @
     ''AAAAAAwODg7NmDL7qyqgdTJAJBrZ2dmysrIbAAAACwBEJxP1rkDCwsIACwqampqibyreoT7zsTU2NjbT'' @
     ''09Pn5+dOTk55WBl/f39sbGyUlJSoqKhzc3MACxBZWVkcHBwzMzO4uLjFxcUgAADFkTQXFxcMAA8ABRoo'' @
     ''AAACDBf5rzXvtlK0fyzvsEGygD5CQkJJMR7FjkJ5VCTkqk1jQyOMYjI+GglYPhTstD3ZoUnwrxVsQiPX'' @
     ''k0WWXizsoUY3FQ0xHQ1SMhz2tAl7Rx3onzOKbC91Si4aAAzUolFQNA9WKhC0hkIvFgSyj0IIByIlFAyY'' @
     ''bDzRlClcOSk2JBJ8XSz/qjpgOg+lbDnDfEGrbiLPiDJ6XjqxkFI1BwBCDgrokTytfVVZLQmFXDTzrWCu'' @
     ''f0k/HhubXzY6AA3ilCAiGw+0lCWhgV1iSyzGnF+aeUPNpE6BZUc8NR4nFSDQoWOQeCvPsUFnUx1mXDa6'' @
     ''nVqbWB+mm2WNg2NUQzh/aV9xTzuud1RNOzDRtma2nFT644wnAAAcKUlEQVR4nO1di0MTd55nvjNmkvn9'' @
     ''5u2Ow0wcVMJ0JKm4VjvaCiZkJNEQUIgIcmKLQotbpQ+1e1uWvV2v1m7Pu9u7vb273v6x9/vNIwkCiu62'' @
     ''CY+vGvIcMx++79f09BzQAR3QAR3QAR3QAR3QAR3QAR3QAe1FSvekU5mE0uQJvtPfqEuIT6f5dObc2UMh'' @
     ''nT97KpVOpzv9pbqEKDYnDkGLrryTSXX6S3UJ8amL7wKwAsuyHEt+ZAFOD6UOpIoQnzkHEALTIjh0PJM+'' @
     ''QKeHQCNQaNqxuQRw8YBz+NQ7sTy1YyMIADy/3xUyf5xAE1EbNkTtwLuZfY5NOnU+gWYjNuwFOLmvjRXP'' @
     ''8ydCNUyBIUrHI7B4kbliWSpVnf6CHaR0z9C7VA+LYo7lfNOmzg3r+zEfwZn9bKr49FnIEmxsMZezTfHq'' @
     ''YG38AdhlLsImC8dT+1TlEDvE85Ei5ticx8GgayCnPgGmGYEjwHupfRtYtRRxzjNh0tExQkp9QCyZETYC'' @
     ''nMjsT53D86lTVBGHTOKXrlUUXdMU5NSgXEwY54PMvoSGGqlDIMQ224M+jQkJuRN2MbHk+9WOp1MfEkUc'' @
     ''gWCK16ciaHQdTYPZxAaG9qU2Tg+REDPCRjCtkQYKsdF05IzLLe/4zP7UOGdCbRPF3eMBRjHjMNhdFhPv'' @
     ''WICL+zCsSvOtANPszytGpG8Q08DKICR8Q+z4/lPHfOZ8CECR8zwB7jSwpEfYEPZBzrxpW5wfRQ4fptP7'' @
     ''zMvhT0EkOF7Oh/l6w5CYJiGlZvlcEjl8wO83D5DY70gN5zwbag7qldQWOIo7LvvNyOFsZj9hw/ekTkCc'' @
     ''jsh5cMNFhmHghGvo3/xwWRRiB/DC0H4yVeRUE7fP5tj+GQMhzBioiQ2jOTchZhyqjnv2k6nKnEk8Ys6H'' @
     ''yVWEdBUbLb5hGszsnO+FdoxwD5xK759sBVHEEHs2gnxrFjGbCAV94LECGzmAF9L7JrGe7jkNiddXhqqD'' @
     ''1U3QSMrUddsWIycnC+cynf7OPw/xPZkPWx6xOe9idTM2vegfpoc50+as0I4fGur0t/55iBgdYpmb0UJN'' @
     ''UfXNMmUgNbhtEU0dKWQ4u0+EiijibMI3NJBq6NLL0Ggqo2v5OYuLsjvEydkf8TiJv+U4kjRNWHD0yDRt'' @
     ''JmcQPC9M5cgCnE7tA1OVTr8HsWeTK9t3HF3fBhqGqQyAlxQ64dSeV8dpPnURsuHpFoVc+VpF16P4civS'' @
     ''qiB4CTbv7nG2oakY/nTs9omsJ1ZDo6RsjQ3C7g3La6YAT+xtjUOwSZ1Lkn2eDzcqOkJI2Q4bRp/uTxLK'' @
     ''xAPc4+qY+P5XgHq75J/nD8+oCgppa5lCqDBpm5zAiSE27+9tjZPOhIlQkc15vi9+5OJN1ruNMJK0+sdF'' @
     ''LkfEL7T3ezseJ/Y7al3ziKz0L2rNAHNLUiRcqAJ5c+gMyXB6D6dH03zmdNiHxHkkjoTnUyqjvBobhIO7'' @
     ''YtnLxY7ih3u3WsXz78Q1XsHLwr18A78SGkaXJKSOWKaXixRyFvZuzSGduRJj4/ksVANVUTZFmRsISQYT'' @
     ''3BBzETbypT0bj6fDrkcutt/2RGG7WKEdHKKRZ/pFL/JyWIDjezPm5Ht4iLFhPdOa1l4HTESGOwklP3EA'' @
     ''39+bGofPvMfG9W+fg8kCfj0ulCR1aqBUTuqc8M7ebFcagiTb5xfn8q8XqJhvsHYY7CY27+7Jdv4Utd+x'' @
     ''uoFBTXqV29dGqiEVrstJ4HAJTuw5bHjaY03dPtGmamOggqVXun3t2PRq05YvCCyNHLIs7DllzPP8uyE2'' @
     ''dpEYcFjSdihRBBsGGe64THARo9ba9/acxkmfiaYWODbnizcq24TeWxLC2tGVot0skJ/aY9jwfDZLowWR'' @
     ''y2U5mNXRDrUNCRwQxmrjCBTtpAb8fia1p3RO6r3II7Y5wbYmA4x2qG1oxYFBSM0PiDHjCFk4kd5LsUPq'' @
     ''OGQTbIoDFRUhRd+hf4OQbkjIWQcuajsWBLiyh/oqiJF6N2kNYHNQ1TacOnpVeit5FzN1XYxrWnute/Sd'' @
     ''MNkXZolhotLOMQjtDB2d2vEYG/bS3kmPpocOJdiwJiQdoW+Cjaaj1TVIsBHg5B6Jx0n8fRaSrkcB1pod'' @
     ''oW3YhD9fhY0mofotSPhGgON7Q+Xw6aFWjddezhtos74xjNeIFHFyCtUEG6KOz3f6rP5OlDkfJ4kFToYj'' @
     ''mmS0YyMhPQgWZt2AVhyUl1I6qpY8RrqquvO2zUVj0ix8uBc0Ds+fag67lOWBvEa8lTaOkfRK37wF19Zm'' @
     ''HWrY1TZsyBtVNe50w/TtNShzbJTmEg4N7YXdA+lD0YgzCRaKsBTghG8ibPT6PSiV/ZK5/ElA7VcbNooh'' @
     ''Sa2aJ3mvOw6UcSK9dXb3j7ryqXPJIG+O427MIiwpbXzDVOaB9XJe6VN7Jd/AG7SOriMSL7Qrpun+coIN'' @
     ''icd3e7WK7xmKPWKW9dj+GRIdJR5xhM0i2LkcMc4iB/cLGxMXWP3VWEVvwybsOmnWx8/v9tQxTxuREmyI'' @
     ''/SYqhPgqbdj0ieWcabK5HCt/VsG9RptfiLXncHs1eTO50dDsA7mVAjze6ZP7Gyl9CuIhZ9byrPzLlho5'' @
     ''47YnCKJo5wTz6hQylDZskPIFwHS7X6hoRB2zYSqH4+BKapf3HZ+PFypQh+2+w+gvYzMp+sS82ybHmVcr'' @
     ''2Ggv5iE0CDDCtGFD1NOE7BN9HDIPnNjV+zwyJ4CNsRHkj2eR/lLhBSk1KHFhqtQUJwpIb895IYZgU2vD'' @
     ''hlh8rWZxpshGQ4swtItTgOFEZtx5L0DNQPoGvqGhgjtg20Iu55tFGHGQqrcLnUawGdzANxIu3AbTj2vA'' @
     ''cGb3hlV0ND72bYjqHA+Qpm8MpagKme4HzvM82+orIGkLbPQWNrpuYH12lEt6B+TsLk6PDkXrW2i0wEEe'' @
     ''4caGU6fgYFSofU5XLSwfLqjIUJmtsYkfk/tMcB+I0Y8dwPOZ3ZoBTJ2JB4EINvCQyNNLqT5kIKyurhaO'' @
     ''Li1VL2ub2gZwJFMvU345cXKELJxK704PMHURLsXOiG8O5JWX288JPwT16s3Bo4GqMkZv786wQdonUIqi'' @
     ''eiKvl3bjBqF0TzqddISyXFmubm61QcipzQHI1s2FLXNb22CDpybMZHY6Cyd2n6ni0zSQipN9AiffrWw6'' @
     ''dV11pkfFHF1FUQs0dfPAxzYyhbXpfi6JHIRd6B3z6VTPhaQ1wOOsWkNjXuINVXVvyGXi9JXMz10No011'' @
     ''h22wMYzGHduMscnuPjtOYuTUSRp+h0mtMky6CkYOkpDiaGoMAtZngNhujrPtuVmCTVvMHZPWB9CnvyRv'' @
     ''GBvq1LJdJDxphynA47tNGdNE6KXYs/HN5WndQAbBJqh9MZh3omAbO1/EBkdcrjeQZCg6pddioxq4sA42'' @
     ''l4tTx7ute5Ro4vNCFH/7ZR+ONFSkKDpylognM+5G9V7s3gA/kg14WJAk3QipDYqXfb9YTxlIy8+D7cWV'' @
     ''vN1WH+f5i3Gw4Ptlca7ewMjQSYBgsb49XI/TnHkLWDH2/scriS5W9CYU+kvxVEw0W/gJFJO1XNkLJB7f'' @
     ''VaxzOk72+R4HYwXVkIjxxe48eCLU4oCzasqxsqYRxZSjaYGmOY6iNLH54qU4POEcBRfGgZi/eO7sxG4a'' @
     ''ruczJ6OMFif6OZioqEQLYwNj5yFwPtzXEDk9xhkv2axocqwN4JVh/MtqdZDQV48cigX9q/dtiY2q61id'' @
     ''HraTAD8Lu2gzK99z/FI0W8cVcx7MhPoVGRgxfeB7MBFINBlRWTZF1iyxnvz4yYooyvGCXnl0QTUUOhxj'' @
     ''aL8wVyrknrJ5IkRbvSmWm0y3e5bd8T2Z95JBIJoILcRagnBOjWIz4NLT1EbApNWmXA5GCvmvi5+WSDTO'' @
     ''sp4NIw0t1MoSGoPPKqHx2qSQGSX/wCw106MXO33OO6fjCTTE7RutRzUngo2C8/2+4Fl5xmDUYFKmHTXE'' @
     ''LZ5bwNrM11bMN8uTlaRIjoMXv55tq5hv0MeNw9DC5jQNUTp91juj95qj8Sysx/VvoooVXBkQBQ9GNIN2'' @
     ''G9nEu8lxpjnhYi1YmJ3NhzQbhIaIkKo7Ux/V9K2xUdXg82ZaXYBzu0TjRB2hETbyQNJRgrDq4MIEEKk5'' @
     ''rEpIrVnlHFf0WA6OFBSFwUwkPDrxlx1isjRN19x/zP/mZkDva5tkSmN6R6INOiE2l3ZFOB52hEbRgkC+'' @
     ''9IgmxZESYhRqeXKs+Tho4NX7EJbhTA6efzIyRmlwLN9AiHiJ+epg35G+wcG14f7+Y33kTt9gnkC1of+C'' @
     ''+MeVcTHLlTwh9AB3RVjF95wME6HkvH0fbkzhFjaGoY+RMKFoEWwW5uO1SXQ9uizKxEyJMFpzyHvdb2Ty'' @
     ''kP4hPrUfWjB57tGGUjnVXmphOivGewfoFMguYJzUcWBjbMq2Na0hKc7cEL4x9BHyYtFaUPGMFQldjhX8'' @
     ''spfLESNVLpVGRzS6GLJU5qzodUHwfUHwyvKXxob6DYktVK1wRLSjqCrcPdr94GTijlCKDUwGTDs2iMkv'' @
     ''20IRajoRrmi2xeLYpG+Jbpe6UUDKNJi2kBWynG2afo5aPCIzjzbqG4INTXLMyzE2BJx3uj47mrooJDVe'' @
     ''ThwgaoJIVHRSBi0+ucfIbxqe685EHElFp0YdnRCcgSkSkQ5+vZwt+yvD/cPD/dZcf8lcGZ0MEPGt22WK'' @
     ''9qcQFrPZpDJ4JdXl+piO1kFckeKg6oTYJHxDqwRrJH6WJxraXdMOl5QQcGyzWCR/bZOYsHmCDXLc3x4j'' @
     ''UaYbBE5QuHzdhieVABvKBmxosUpSChOm54VlHsJaXd49Gu34jiVEnt+cCFWWiHliR6caN02iR4RmrOmz'' @
     ''nOCR8GogdKKxe0yGo1G6QvulDL/YbMNDgAx92mJDdzr0APmujsf5IWCTJLEJR7XN3ecjwImcvO4EYVXK'' @
     ''I0pHJH88H2S/hQ3Thk3wS3E7bAiLuWvgeUkz/5kuro/ztCNUiLERxYcNdXNdpTIhlmz/d7NqZX1t/uPW'' @
     ''NWBGV8rbYSPL22Gj90rTT5M+DbqVoYu9Y2K/mxcvKQ7n9S3qKs4glMN0jeYEwUK+RevwCmycLbFhNEkK'' @
     ''+mihJ/ZxrnRtejSdJvY7m2ADRxq9xuYRZ5y/5bEWB4/zdPMNCRBCUhl96c2xwYyDMLHjiQPIwoedxmA7'' @
     ''4nuSjtByLmffq6hbDLsgI6hCmTost27c/6I6FtN0gA4DV2TlgUKIQohNaJcINgC/cDYdKDoa8QpQqN0j'' @
     ''jwCu8N3qAfIfxG6fFyVC8RZigBDROMQmsSRQCFNZYXhgjTljBBuhhY24I2zC946LfhzZXoKzXSpVaVrI'' @
     ''DPVNzitdL2jqFlNSOkZO/R4IPt270CTf/DyovS02Rh5MLo4wshf4LjRVaRJ/x2xDsBE+ztO6wRbYkPPR'' @
     ''Kg/BSxZp0dhL8M27b4+NVHiY7G2l05xdyDjk19XeETruSFubXVpEUN11C9gi8YZtEjJREm86Y+JbYsNo'' @
     ''+TnRa6YAT3Uaic3Ep081e7QE+1a9t1dCWwxwEE7Sdcws9nOwEmdBWUFeGc8bYzZnC2+qi1GYItRq4HHx'' @
     ''yGL2UPcp43TmfDMRmoW+xjZzLQjrikFrMcWBuluvL1XX74MHNc1hqtSGx9gwO8QmOiQJMSZM0bTZHGGb'' @
     ''cJqzy8QqdQKaezDtgfrmjpFEqHRyLnmgI+IYY11TK3MiVBsIL70tNoqOlZpl00IX0V5ZVhjqqpgzne5J'' @
     ''R4o4tBaw5CBt6zUlqqZjTILx0jEXKYphSNiZMOFGgcGJ7/cmMhXxDS0m35aLYfMAEWs4201VTmI30yfj'' @
     ''0XhaWlirYGlTB1uCjYEb02CafRptqMVYcQgoA1M6rr49NjpS8lbRzsXqLttN7Up8umcoSoRScGRrpoEl'' @
     ''aWt9g5VeprAG5rWFxIqhfL9ojQSIYpMT38xOxdhoiCkcgZKXi0PO8101PpSJO0KJKbVpaz6z/U4Fw6hb'' @
     ''HgwmEZLeG9y14fkqJjac84t32/jG2KkuJqRXBkwvrhcKxI53i1TxPfRiSbGDQScytw6aoxNBjHPTtpfr'' @
     ''ichpvcF9EOddfBSKfpm402+MTUTBEpTt2DmGQ12THiXx92khmyTw4IttEgoR10hqfrRk0q1JEToqTfqK'' @
     ''/XW1ME6dnepbYoP0qQEzvvyQQMucnQYlovQQ3+wIJfw84W7tEcfnIAVHwLRGcDLaQOLRyjKx4prqVm/f'' @
     ''nAmYt8QGqW3do3ChW4br+UxzNJ4YqRmkvgIbXZ9dLsNaAfXGk4lYZ4JxMZwa1x1HQdJbyhQB/ZeQXH6I'' @
     ''xuOdRqWHdvZRRRxWXGiPNayt4sYrsNG0L8wS5BvKajxhp+pIW5e5ay5GGNN+pPCzlWO2fJSJsZF3gg3T'' @
     ''q0yt0MpFvJm/GxxAPpVMZJpirvwpTGv6q/YZouDzUumh1tojoCpIXbTE/rza3rg+de1TeyQ6Dm3vOry1'' @
     ''s7SBJKZwH2yfjSJOON8NpopPnWbDblk6ngzPC6/Z+qMNWl/n206VYIPd29Y3CxtWiwY3rXvxJS30sf7R'' @
     ''/Ouh0SWs1ufFEpckjy92A+OcShL9HGddu6xu5/Ul5ObzNKRqnpOCkLGQX9i4Dkdx85V4nggXpqed1+/K'' @
     ''oTM1xOKZRStOHR/q6eks69As2+kIGxLOFIkJ3tYjjkhDEt270XZOoc9DZxU3nL/anG8gbu/GkbRtsAlV'' @
     ''+OeyzeXi7tFzHR515dO0ESkMpOycBxOXNWy8cluUqvRitX0KHKmao4Y9Fhsg1A26jCIijF8PDV0gTqRz'' @
     ''2mpi0/FLOvA9Q9lkfiznWyMa89oFqmjjXn0aNoS18peijNftNdmCSDzu3Jb9xEOH9zuaHuX59PvxFQU4'' @
     ''1pYnC29+QgkS21r9NyEszT4Qm90Znb3EYprWv2Ns/NLw1M43Gv402KhYGYPWXtaOxuPpVOtiST5UGztR'' @
     ''DD8tNtidSLpHBRZO9nQuPZpp6wgV77rMq7dY//TYIE1Tasm1OVlBuMB3ylTRZc3N8rcojmiSptJWWUw3'' @
     ''+dA7dFws7NrC0UBDOPMc9XHRAIG8WQ0f4dA9iatN5CM4Qoq+na73C9ubEIreQD5JD0v3BtFpIXJHZ8L/'' @
     ''hr5dchqMOxnmS6JBhzOdaqzge87FOWJBtGF8iullGoo0NaVpBXeVWa0UJENzK66jKcGUu1qpzKLADRSm'' @
     ''4LoONrC2MFVwptyAWZ0ljxmJvFipFAIDB5UCvYeR4hQqgUNrNhr56TA4CMhrBU1yyCHcSkExNPKMpjGo'' @
     ''UHED2oZCx9Ochaf0OjwhydCha3pRRRz3r3m2OEw7QnXHeDQ6+ij/9ddjwTejt1fz43Nzc+uB80/DK8tP'' @
     ''5+5Njfz+65H6wOiv/6CuMsG94Zuzoyvjq49Gf/2PWGW0m6PLy8sDVfej4adPVx6MF/BC38DywGFXUfLj'' @
     ''t5YHahXt3tzc8q3lQXd6dG5l5Xe/f9T457vH5sYXlEfjK3MTtcCgS6l0PegD0xMjdIgd74xQpd5PdpT4'' @
     ''ZXhImxUVHeeLYnXJhjt1C9ZnBsLhli8Kd+QigAV3ngB8+xisJcI3+uzvYHIWTHhUA5ghfnDjI9MEEK2/'' @
     ''PqOfEcXBy3dFmbw+7i7co10F1vrsVdMG8kz1O3JDaOl7oC98s/h12Nw0TUJ4nQZlC9ds4qPHlbLOTHPG'' @
     ''1+gIZYobrlNloKi4cAsePgd49gSsxTXgnnz/zOxf/KP4YHHxB/HZbyD3L0VrKZCwpFJs8lCWbxDApolP'' @
     ''23gMP754sgLPn8GzxReX7DVylH/9t38XrdogiHe+vz76jTsPf/r+P0Ce/A7gNy8Wpxf+E57++c8P5r8F'' @
     ''+K8//3gsH7mVRLLGkvo4waYz05yZkwk2xJWoOnRXFGqg1Un4y/8ADH8L31w+Jj6o6EsiVNfgh/9begAP'' @
     ''v4Oc/+kPU729SFLrv4M7FeIdwX9b1lHN6FU/Eq/WFx/A/f8Rf1hcfwr/+xk8uMxMg/ztM3PODV78pubO'' @
     ''01cIv7wAmB8fv+1+BfLTH54t1kCGq/+9HiBdpdhISuPzou8l6dGObEmM1/ZRcIr3XBTGCiQKn7GK//Lg'' @
     ''mfUj3Lz8QDwWoDETnjymTG8+/X4Jcvan0LeKe3tVl/BNBeDHfqtIsFkl2NiwYsnW+jNbBst78Nsbfr/b'' @
     ''O501//jMHF59RIRq+qotEmG7OvsdcPSA9cv3b5Efv1988dlyP8BYvO4OKdqvRs2keQDOdUDh8JmkN0Cg'' @
     ''I5hx1sYw6Djd1T9CFmqFu+JKfeqODbXHsPJ4grOWlkD+4aloTdONJe4xuDNF9M+AbMK0ZkiNCegf/f3d'' @
     ''scozuLU2IVpLawDfTx0B8ci4aC8u/gX6Z67Cg4fz4tws0VBrL2o196s7T178KQfP7zz/v28vwaSTfAe9'' @
     ''sNase8Dpn3+wKpV+J9HENkxMqXEYjXDhesl+vA4+1PEYwNU/CeK92TU4Vg+ufrz2BMS/HoESkTRFrRCZ'' @
     ''ugxQW4cS0Tc6Jtj8+Ftiit1nMBHks+bkIsAPf3oqz+VHoPjg2VPoX/wBHhfqMnxJhOiziYmJ55/B6Ed/'' @
     ''EcU/gvXsL5fEdSfhG7VRh+Zm/g7sng/35kcW3IRactUblcGNPmKZZgCIEQ76CKvDwKxDsHG16zBP1O6Y'' @
     ''e0OGm46iz/4aJusAjy7fBZp/V7WP4DMimUzlM7ixSphqvFCbk2UYIPJWpYc51E+U0ZpG4Fz7LmpOGV+c'' @
     ''J7f9Ny+H1Zvr9TgDRtdrJu1KNKr6+fmGT33YVDfwW4zjahNh6Ep1/Q/Bl9Vfaaoe5KvV6qzOPFp/pGkj'' @
     ''62P56tKCsVCtjmkKCr48/Gj1cHVBy69XF7BqoEfVRw5jKMFYdUZfJQ80Zyb8tK445C2Lta8KY+Sg5OWj'' @
     ''+a+qh6vVL//AFEY++eRXjlpYPFydqWhGvLRBVQ281MLm58+NptMtbOZmUbxbVmWIL6w5WHUYSaW1GBya'' @
     ''DkNBWEcO6lWIE6tiI6BZYp040Q1dw1jTyAMJaXSngGTQK9hihDVHQuQ+NiRGx4xDogKD+M4Eexot0EqN'' @
     ''qtKrTyKG/G9YU8nnmrMgqtOrNqMqoQPY9IR8E3nmVh0xgdIko3nzEiXPIaP1jP53onAyODym3uhFjeed'' @
     ''5BsqU8kKF1jUEP3NvjlFieG/BxEWIzchEfacumV3VKbeSbARYF3D0ltQb+sepfZXWo/aXwqnxtvIaD1h'' @
     ''tO5jJ/95c0EOXOlEN/YpiK+YZBevXW5oPy9FgrT1a5WRu1BqYnOyE+mtVDIgL3Dw7PnzI29Dh3dOfa+k'' @
     ''tmPemQfZLifleRJsdiJmeL9tOqebKLxafTJT9V5HkhTxRZPCryA01z8mDZGvJ/Zl2tnHXns0ofWYLgDs'' @
     ''TOk3c6gdmwgdQdjxScafatHfhE3zG8TYRPfhbKozld/0CdjALl3AN3RwJBkBpeOtpztVZghL4VuB0zls'' @
     ''Wsdhw7FovlPtAnzP0IXm5uYOY7PpOHQp8OmhdOdaKVJDh5K+4m6jrADn+Y624PAUnG4kgEPnUh2d+k33'' @
     ''pPgznXZntqQPTpCv1uERvDSfPn72UFfRB++ePHk81Q0rpujm0FQ6tYEyMSV3m0+1fqbCm5+AMil64J6u'' @
     ''6C+mliBk3eQXlW5R8ih5uqftiZ/097qnrhV4QAd0QAd0QAd0QAd0QAd0QAe0++j/AZa2KgIHZ+kQAAAA'' @
     ''AElFTkSuQmCC''"

definition placeholderImageUrl :: string where
  "placeholderImageUrl = ''data:image/png;base64,'' @ placeholderImagePayload"

definition createFallbackStory :: "string \<Rightarrow> Story" where
  "createFallbackStory userInput =
     \<lparr> title = userInput,
       pages = [\<lparr> page_text = ''Story generation failed - please try again later (likely rate limits issue)'',
                  imageDescription = ''Story generation failed - please try again later (likely rate limits issue)'',
                  imageUrl = Some placeholderImageUrl \<rparr>] \<rparr>"

text \<open>
  \<open>handleGenerateStory\<close> up to its \<open>await\<close>. The request is a fixed text around the
  topic; the model keeps the topic.
\<close>

definition handleGenerateStory :: "app \<Rightarrow> app" where
  "handleGenerateStory s =
     (if trim (topic s) = [] then s
      else s\<lparr> appState := LOADING_STORY,
              inFlight := inFlight s @
                [StoryTask (StoryRequest (topic s)) (topic s) (cachedImages s) (currentPageIndex s)] \<rparr>)"

text \<open>
  The rest of the \<open>try\<close> block, once \<open>generateStoryContent\<close> has settled with
  \<open>outcome\<close>: the state it leaves, and the error if it threw. Reading
  \<open>pages[0].imageDescription\<close> of a story without pages throws a \<open>TypeError\<close>, after
  \<open>setStory\<close> and \<open>setAppState\<close>.
\<close>

definition handleGenerateStory_try ::
  "(int \<rightharpoonup> string) \<Rightarrow> int \<Rightarrow> error + Story \<Rightarrow> app \<Rightarrow> app \<times> error option" where
  "handleGenerateStory_try cachedImages' currentPageIndex' outcome s =
     (case outcome of
        Inl e \<Rightarrow> (s, Some e)
      | Inr generatedStory \<Rightarrow>
          (let s1 = s\<lparr> story := Some generatedStory, appState := READING \<rparr> in
           case pages generatedStory of
             [] \<Rightarrow> (s1, Some TypeError)
           | p0 # ps \<Rightarrow>
               (let s2 = fetchImageForPage cachedImages' currentPageIndex' 0 (imageDescription p0) s1 in
                case ps of
                  [] \<Rightarrow> (s2, None)
                | p1 # ps' \<Rightarrow>
                    (fetchImageForPage cachedImages' currentPageIndex' 1 (imageDescription p1) s2,
                     None))))"

text \<open>
  The \<open>catch\<close> of \<open>handleGenerateStory\<close>, run with the topic of its closure. In
  the first variant it installs the fallback story and a cache that holds only its
  placeholder picture (had the story no page, \<open>pages[0].imageUrl\<close> would throw after
  the first two updates); in the second it alerts and returns to \<open>SETUP\<close>.
\<close>

definition handleGenerateStory_catch :: "variant \<Rightarrow> string \<Rightarrow> app \<Rightarrow> app" where
  "handleGenerateStory_catch v topic' s =
     (case v of
        CVC \<Rightarrow>
          (let fallbackStory = createFallbackStory topic';
               s1 = s\<lparr> story := Some fallbackStory, appState := READING \<rparr>
           in case pages fallbackStory of
                [] \<Rightarrow> s1
              | p # ps \<Rightarrow>
                  s1\<lparr> cachedImages :=
                        (case imageUrl p of
                           None \<Rightarrow> Map.empty
                         | Some url \<Rightarrow> Map.empty(0 \<mapsto> url)) \<rparr>)
      | Nano \<Rightarrow>
          s\<lparr> alerts := ''Oops! The magic wand slipped. Please try again.'' # alerts s,
             appState := SETUP \<rparr>)"

definition handleGenerateStory_settled ::
  "variant \<Rightarrow> string \<Rightarrow> (int \<rightharpoonup> string) \<Rightarrow> int \<Rightarrow> error + Story \<Rightarrow> app \<Rightarrow> app" where
  "handleGenerateStory_settled v topic' cachedImages' currentPageIndex' outcome s =
     (case handleGenerateStory_try cachedImages' currentPageIndex' outcome s of
        (s', None) \<Rightarrow> s'
      | (s', Some err) \<Rightarrow> handleGenerateStory_catch v topic' s')"

text \<open>
  \<open>handleEditImage\<close>: from the answer on (\<open>result\<close> is what \<open>editStoryImage\<close>
  settled with), and up to the \<open>await\<close>. When \<open>editStoryImage\<close> throws before it
  calls the service, \<open>catch\<close> and \<open>finally\<close> run with no request sent.
\<close>

definition handleEditImage_settled :: "int \<Rightarrow> error + string \<Rightarrow> app \<Rightarrow> app" where
  "handleEditImage_settled currentPageIndex' result s =
     (case result of
        Inr newImage \<Rightarrow>
          s\<lparr> cachedImages := (cachedImages s)(currentPageIndex' \<mapsto> newImage),
             editPrompt := [], isEditingImage := False \<rparr>
      | Inl err \<Rightarrow>
          s\<lparr> alerts := ''Oops! Couldn't change the picture. Try a different spell!'' # alerts s,
             isEditingImage := False \<rparr>)"

definition handleEditImage :: "app \<Rightarrow> app" where
  "handleEditImage s =
     (if trim (editPrompt s) = [] \<or> \<not> truthy (cachedImages s (currentPageIndex s)) then s
      else
        (case cachedImages s (currentPageIndex s) of
           None \<Rightarrow> s
         | Some currentImage \<Rightarrow>
             (let s1 = s\<lparr> isEditingImage := True \<rparr> in
              case editStoryImage_request currentImage (editPrompt s) of
                Inl err \<Rightarrow> handleEditImage_settled (currentPageIndex s) (Inl err) s1
              | Inr req \<Rightarrow> s1\<lparr> inFlight := inFlight s1 @ [EditTask req (currentPageIndex s)] \<rparr>)))"

definition goToNextPage :: "app \<Rightarrow> app" where
  "goToNextPage s =
     (case story s of
        None \<Rightarrow> s
      | Some st \<Rightarrow>
          if currentPageIndex s < int (length (pages st)) - 1
          then s\<lparr> currentPageIndex := currentPageIndex s + 1 \<rparr>
          else s\<lparr> appState := FINISHED \<rparr>)"

definition goToPrevPage :: "app \<Rightarrow> app" where
  "goToPrevPage s =
     (if currentPageIndex s > 0 then s\<lparr> currentPageIndex := currentPageIndex s - 1 \<rparr> else s)"

text \<open>
  The body of the \<open>useEffect\<close> on \<open>[currentPageIndex, appState, story]\<close>. Its
  \<open>fetchImageForPage\<close> belongs to the render that scheduled the effect, so it reads the
  current cache and index. \<open>page.imageDescription\<close> throws when the index is outside the
  story.
\<close>

definition pageEffect :: "app \<Rightarrow> error + app" where
  "pageEffect s =
     (case story s of
        None \<Rightarrow> Inr s
      | Some st \<Rightarrow>
          if appState s \<noteq> READING then Inr s
          else
            (let page = at_index (pages st) (currentPageIndex s);
                 s1 = s\<lparr> editPrompt := [] \<rparr>;
                 nextIndex = currentPageIndex s + 1;
                 prefetch = (\<lambda>s2.
                   if nextIndex < int (length (pages st)) \<and> \<not> truthy (cachedImages s nextIndex)
                   then (case at_index (pages st) nextIndex of
                           None \<Rightarrow> Inl TypeError
                         | Some p \<Rightarrow>
                             Inr (fetchImageForPage (cachedImages s) (currentPageIndex s)
                                    nextIndex (imageDescription p) s2))
                   else Inr s2)
             in if \<not> truthy (cachedImages s (currentPageIndex s))
                then (case page of
                        None \<Rightarrow> Inl TypeError
                      | Some p \<Rightarrow>
                          prefetch (fetchImageForPage (cachedImages s) (currentPageIndex s)
                                      (currentPageIndex s) (imageDescription p) s1))
                else prefetch s1))"

section \<open>Events and reachable states\<close>

text \<open>
  What can happen to the component: the user acts on a control that the current render
  shows, or a call in flight settles. \<open>StorySettled k outcome\<close>: the \<open>k\<close>-th call in
  flight is a \<open>generateStoryContent\<close> and settles with \<open>outcome\<close> (\<open>Inl\<close> when it
  rejects). \<open>FetchSettled k answer random\<close> and \<open>EditSettled k answer\<close>: the service
  answers the \<open>k\<close>-th call; \<open>random\<close> is the printed \<open>Math.random()\<close> that
  \<open>generateStoryImage\<close> draws if it fails. Calls settle in any order, and nothing
  cancels them.
\<close>

datatype event =
    TypeTopic string
  | SubmitStory
  | Restart
  | TypeEdit string
  | SubmitEdit
  | PrevPage
  | NextPage
  | StorySettled nat "error + Story"
  | FetchSettled nat "error + response" string
  | EditSettled nat "error + response"

definition task_at :: "app \<Rightarrow> nat \<Rightarrow> task option" where
  "task_at s k = (if k < length (inFlight s) then Some (inFlight s ! k) else None)"

definition settle :: "nat \<Rightarrow> app \<Rightarrow> app" where
  "settle k s = s\<lparr> inFlight := take k (inFlight s) @ drop (Suc k) (inFlight s) \<rparr>"

text \<open>The state updates of the handler (or continuation) that an event runs.\<close>

fun handler :: "variant \<Rightarrow> event \<Rightarrow> app \<Rightarrow> app" where
  "handler v (TypeTopic t) s = s\<lparr> topic := t \<rparr>"
| "handler v SubmitStory s = handleGenerateStory s"
| "handler v Restart s = handleRestart v s"
| "handler v (TypeEdit t) s = s\<lparr> editPrompt := t \<rparr>"
| "handler v SubmitEdit s = handleEditImage s"
| "handler v PrevPage s = goToPrevPage s"
| "handler v NextPage s = goToNextPage s"
| "handler v (StorySettled k outcome) s =
     (case task_at s k of
        Some (StoryTask req topic' cachedImages' currentPageIndex') \<Rightarrow>
          handleGenerateStory_settled v topic' cachedImages' currentPageIndex' outcome (settle k s)
      | _ \<Rightarrow> s)"
| "handler v (FetchSettled k answer random) s =
     (case task_at s k of
        Some (FetchTask req index currentPageIndex') \<Rightarrow>
          fetchImageForPage_settled index currentPageIndex' answer random (settle k s)
      | _ \<Rightarrow> s)"
| "handler v (EditSettled k answer) s =
     (case task_at s k of
        Some (EditTask req currentPageIndex') \<Rightarrow>
          handleEditImage_settled currentPageIndex' (editStoryImage_answer answer) (settle k s)
      | _ \<Rightarrow> s)"

text \<open>
  Whether the effect runs after the updates of an event: one of its dependencies
  changed. A story that a continuation of \<open>handleGenerateStory\<close> sets is a new object,
  so it always counts as changed (when that continuation sets none, it leaves the phase
  \<open>SETUP\<close>, where the effect does nothing).
\<close>

fun sets_story :: "event \<Rightarrow> bool" where
  "sets_story (StorySettled k outcome) = True"
| "sets_story e = False"

definition deps_changed :: "event \<Rightarrow> app \<Rightarrow> app \<Rightarrow> bool" where
  "deps_changed e s s' \<longleftrightarrow>
     sets_story e \<or> currentPageIndex s \<noteq> currentPageIndex s' \<or> appState s \<noteq> appState s' \<or>
     story s \<noteq> story s'"

text \<open>
  One event: the updates of the handler are applied together, then the effect runs if a
  dependency changed. \<open>Inl\<close>: the effect threw.
\<close>

definition step :: "variant \<Rightarrow> event \<Rightarrow> app \<Rightarrow> error + app" where
  "step v e s =
     (let s' = handler v e s in if deps_changed e s s' then pageEffect s' else Inr s')"

text \<open>
  The controls that a render shows. \<open>renderReading\<close> returns \<open>null\<close> without a story
  and throws on \<open>page.text\<close> when the index is outside it; the edit bar needs
  \<open>image && !isImageLoading && !isEditingImage\<close>; Previous is disabled on
  \<open>currentPageIndex === 0 || isEditingImage\<close> and Next on \<open>isEditingImage\<close>;
  \<open>renderLoading\<close> has no control; \<open>renderFinished\<close> has the restart button of the
  game.
\<close>

definition reading_shown :: "app \<Rightarrow> bool" where
  "reading_shown s \<longleftrightarrow>
     appState s = READING \<and>
     (case story s of None \<Rightarrow> False | Some st \<Rightarrow> at_index (pages st) (currentPageIndex s) \<noteq> None)"

definition isImageLoading :: "app \<Rightarrow> bool" where
  "isImageLoading s \<longleftrightarrow>
     \<not> truthy (cachedImages s (currentPageIndex s)) \<or>
     (isLoadingImage s \<and> \<not> truthy (cachedImages s (currentPageIndex s)))"

definition edit_bar_shown :: "app \<Rightarrow> bool" where
  "edit_bar_shown s \<longleftrightarrow>
     reading_shown s \<and> truthy (cachedImages s (currentPageIndex s)) \<and> \<not> isImageLoading s \<and>
     \<not> isEditingImage s"

fun enabled :: "event \<Rightarrow> app \<Rightarrow> bool" where
  "enabled (TypeTopic t) s = (appState s = SETUP)"
| "enabled SubmitStory s = (appState s = SETUP)"
| "enabled Restart s = (reading_shown s \<or> appState s = FINISHED)"
| "enabled (TypeEdit t) s = edit_bar_shown s"
| "enabled SubmitEdit s = edit_bar_shown s"
| "enabled PrevPage s = (reading_shown s \<and> \<not> (currentPageIndex s = 0 \<or> isEditingImage s))"
| "enabled NextPage s = (reading_shown s \<and> \<not> isEditingImage s)"
| "enabled (StorySettled k outcome) s =
     (case task_at s k of Some (StoryTask req t c i) \<Rightarrow> True | _ \<Rightarrow> False)"
| "enabled (FetchSettled k answer random) s =
     (case task_at s k of Some (FetchTask req index i) \<Rightarrow> True | _ \<Rightarrow> False)"
| "enabled (EditSettled k answer) s =
     (case task_at s k of Some (EditTask req i) \<Rightarrow> True | _ \<Rightarrow> False)"

text \<open>
  A sequence of events from a state. \<open>None\<close>: one of them cannot happen where it
  stands, or the effect threw.
\<close>

fun run :: "variant \<Rightarrow> event list \<Rightarrow> app \<Rightarrow> app option" where
  "run v [] s = Some s"
| "run v (e # es) s =
     (if enabled e s
      then (case step v e s of Inl err \<Rightarrow> None | Inr s' \<Rightarrow> run v es s')
      else None)"

inductive reachable :: "variant \<Rightarrow> app \<Rightarrow> bool" for v :: variant where
  reachable_init: "reachable v init"
| reachable_step: "reachable v s \<Longrightarrow> enabled e s \<Longrightarrow> step v e s = Inr s' \<Longrightarrow> reachable v s'"

text \<open>The invariant of the reachable states.\<close>

definition story_tasks :: "app \<Rightarrow> task list" where
  "story_tasks s = filter is_StoryTask (inFlight s)"

definition inv :: "app \<Rightarrow> bool" where
  "inv s \<longleftrightarrow>
     (appState s = SETUP \<or> appState s = LOADING_STORY \<longrightarrow> currentPageIndex s = 0) \<and>
     (appState s = READING \<longrightarrow>
        (\<exists>st. story s = Some st \<and> 0 \<le> currentPageIndex s \<and>
              currentPageIndex s < int (length (pages st)))) \<and>
     (appState s = LOADING_STORY \<longrightarrow> length (story_tasks s) \<le> 1) \<and>
     (appState s \<noteq> LOADING_STORY \<longrightarrow> story_tasks s = []) \<and>
     (\<forall>i u. cachedImages s i = Some u \<longrightarrow> u \<noteq> [])"

definition core :: "app \<Rightarrow> AppState \<times> Story option \<times> int \<times> (int \<rightharpoonup> string) \<times> task list" where
  "core s = (appState s, story s, currentPageIndex s, cachedImages s, story_tasks s)"

section \<open>The second copy of the component (nano_app/story-magic/src/App.tsx)\<close>

text \<open>
  Modelled from the spec: \<open>nano_app/story-magic/src/services/geminiService.ts\<close>, which
  this copy imports, is not among the sources. Its Generation Client is a parameter, in
  the shape that section 4.1 of the specification gives it: the request that
  \<open>generateStoryContent\<close> and \<open>generateStoryImage\<close> send for a topic and a prompt; what
  \<open>generateStoryImage\<close> returns or throws for an answer of the service and a random
  number; the request that \<open>editStoryImage\<close> sends for an image and an instruction, or
  the error it throws before sending one; and what it returns or throws for an answer.
\<close>

record client =
  story_request_of :: "string \<Rightarrow> request"
  image_request_of :: "string \<Rightarrow> request"
  generateStoryImage_of :: "error + response \<Rightarrow> string \<Rightarrow> error + string"
  editStoryImage_request_of :: "string \<Rightarrow> string \<Rightarrow> error + request"
  editStoryImage_answer_of :: "error + response \<Rightarrow> error + string"

text \<open>
  The handlers below are translated from the second file alone, state cell by state
  cell as the first copy was; the type of the state, the events and the rule for when
  the effect runs are those of the first copy.
\<close>

definition nano_handleRestart :: "app \<Rightarrow> app" where
  "nano_handleRestart s =
     s\<lparr> appState := SETUP, story := None, currentPageIndex := 0,
        cachedImages := Map.empty, topic := [],
        editPrompt := ''A funny cat who is a fix-it all.'',
        isEditingImage := False \<rparr>"

definition nano_fetchImageForPage ::
  "client \<Rightarrow> (int \<rightharpoonup> string) \<Rightarrow> int \<Rightarrow> int \<Rightarrow> string \<Rightarrow> app \<Rightarrow> app" where
  "nano_fetchImageForPage c cachedImages' currentPageIndex' index prompt s =
     (if truthy (cachedImages' index) then s
      else (if index = currentPageIndex' then s\<lparr> isLoadingImage := True \<rparr> else s)
             \<lparr> inFlight := inFlight s @
                 [FetchTask (image_request_of c prompt) index currentPageIndex'] \<rparr>)"

definition nano_fetchImageForPage_settled ::
  "client \<Rightarrow> int \<Rightarrow> int \<Rightarrow> error + response \<Rightarrow> string \<Rightarrow> app \<Rightarrow> app" where
  "nano_fetchImageForPage_settled c index currentPageIndex' answer random s =
     (let s1 = (case generateStoryImage_of c answer random of
                  Inr imageUrl' \<Rightarrow> s\<lparr> cachedImages := (cachedImages s)(index \<mapsto> imageUrl') \<rparr>
                | Inl e \<Rightarrow> s)
      in if index = currentPageIndex' then s1\<lparr> isLoadingImage := False \<rparr> else s1)"

definition nano_handleGenerateStory :: "client \<Rightarrow> app \<Rightarrow> app" where
  "nano_handleGenerateStory c s =
     (if trim (topic s) = [] then s
      else s\<lparr> appState := LOADING_STORY,
              inFlight := inFlight s @
                [StoryTask (story_request_of c (topic s)) (topic s) (cachedImages s)
                   (currentPageIndex s)] \<rparr>)"

definition nano_handleGenerateStory_try ::
  "client \<Rightarrow> (int \<rightharpoonup> string) \<Rightarrow> int \<Rightarrow> error + Story \<Rightarrow> app \<Rightarrow> app \<times> error option" where
  "nano_handleGenerateStory_try c cachedImages' currentPageIndex' outcome s =
     (case outcome of
        Inl e \<Rightarrow> (s, Some e)
      | Inr generatedStory \<Rightarrow>
          (let s1 = s\<lparr> story := Some generatedStory, appState := READING \<rparr> in
           case pages generatedStory of
             [] \<Rightarrow> (s1, Some TypeError)
           | p0 # ps \<Rightarrow>
               (let s2 = nano_fetchImageForPage c cachedImages' currentPageIndex' 0
                           (imageDescription p0) s1 in
                case ps of
                  [] \<Rightarrow> (s2, None)
                | p1 # ps' \<Rightarrow>
                    (nano_fetchImageForPage c cachedImages' currentPageIndex' 1
                       (imageDescription p1) s2,
                     None))))"

definition nano_handleGenerateStory_catch :: "app \<Rightarrow> app" where
  "nano_handleGenerateStory_catch s =
     s\<lparr> alerts := ''Oops! The magic wand slipped. Please try again.'' # alerts s,
        appState := SETUP \<rparr>"

definition nano_handleGenerateStory_settled ::
  "client \<Rightarrow> (int \<rightharpoonup> string) \<Rightarrow> int \<Rightarrow> error + Story \<Rightarrow> app \<Rightarrow> app" where
  "nano_handleGenerateStory_settled c cachedImages' currentPageIndex' outcome s =
     (case nano_handleGenerateStory_try c cachedImages' currentPageIndex' outcome s of
        (s', None) \<Rightarrow> s'
      | (s', Some err) \<Rightarrow> nano_handleGenerateStory_catch s')"

definition nano_handleEditImage_settled :: "int \<Rightarrow> error + string \<Rightarrow> app \<Rightarrow> app" where
  "nano_handleEditImage_settled currentPageIndex' result s =
     (case result of
        Inr newImage \<Rightarrow>
          s\<lparr> cachedImages := (cachedImages s)(currentPageIndex' \<mapsto> newImage),
             editPrompt := [], isEditingImage := False \<rparr>
      | Inl err \<Rightarrow>
          s\<lparr> alerts := ''Oops! Couldn't change the picture. Try a different spell!'' # alerts s,
             isEditingImage := False \<rparr>)"

definition nano_handleEditImage :: "client \<Rightarrow> app \<Rightarrow> app" where
  "nano_handleEditImage c s =
     (if trim (editPrompt s) = [] \<or> \<not> truthy (cachedImages s (currentPageIndex s)) then s
      else
        (case cachedImages s (currentPageIndex s) of
           None \<Rightarrow> s
         | Some currentImage \<Rightarrow>
             (let s1 = s\<lparr> isEditingImage := True \<rparr> in
              case editStoryImage_request_of c currentImage (editPrompt s) of
                Inl err \<Rightarrow> nano_handleEditImage_settled (currentPageIndex s) (Inl err) s1
              | Inr req \<Rightarrow> s1\<lparr> inFlight := inFlight s1 @ [EditTask req (currentPageIndex s)] \<rparr>)))"

definition nano_goToNextPage :: "app \<Rightarrow> app" where
  "nano_goToNextPage s =
     (case story s of
        None \<Rightarrow> s
      | Some st \<Rightarrow>
          if currentPageIndex s < int (length (pages st)) - 1
          then s\<lparr> currentPageIndex := currentPageIndex s + 1 \<rparr>
          else s\<lparr> appState := FINISHED \<rparr>)"

definition nano_goToPrevPage :: "app \<Rightarrow> app" where
  "nano_goToPrevPage s =
     (if currentPageIndex s > 0 then s\<lparr> currentPageIndex := currentPageIndex s - 1 \<rparr> else s)"

definition nano_pageEffect :: "client \<Rightarrow> app \<Rightarrow> error + app" where
  "nano_pageEffect c s =
     (case story s of
        None \<Rightarrow> Inr s
      | Some st \<Rightarrow>
          if appState s \<noteq> READING then Inr s
          else
            (let page = at_index (pages st) (currentPageIndex s);
                 s1 = s\<lparr> editPrompt := [] \<rparr>;
                 nextIndex = currentPageIndex s + 1;
                 prefetch = (\<lambda>s2.
                   if nextIndex < int (length (pages st)) \<and> \<not> truthy (cachedImages s nextIndex)
                   then (case at_index (pages st) nextIndex of
                           None \<Rightarrow> Inl TypeError
                         | Some p \<Rightarrow>
                             Inr (nano_fetchImageForPage c (cachedImages s) (currentPageIndex s)
                                    nextIndex (imageDescription p) s2))
                   else Inr s2)
             in if \<not> truthy (cachedImages s (currentPageIndex s))
                then (case page of
                        None \<Rightarrow> Inl TypeError
                      | Some p \<Rightarrow>
                          prefetch (nano_fetchImageForPage c (cachedImages s) (currentPageIndex s)
                                      (currentPageIndex s) (imageDescription p) s1))
                else prefetch s1))"

fun nano_handler :: "client \<Rightarrow> event \<Rightarrow> app \<Rightarrow> app" where
  "nano_handler c (TypeTopic t) s = s\<lparr> topic := t \<rparr>"
| "nano_handler c SubmitStory s = nano_handleGenerateStory c s"
| "nano_handler c Restart s = nano_handleRestart s"
| "nano_handler c (TypeEdit t) s = s\<lparr> editPrompt := t \<rparr>"
| "nano_handler c SubmitEdit s = nano_handleEditImage c s"
| "nano_handler c PrevPage s = nano_goToPrevPage s"
| "nano_handler c NextPage s = nano_goToNextPage s"
| "nano_handler c (StorySettled k outcome) s =
     (case task_at s k of
        Some (StoryTask req topic' cachedImages' currentPageIndex') \<Rightarrow>
          nano_handleGenerateStory_settled c cachedImages' currentPageIndex' outcome (settle k s)
      | _ \<Rightarrow> s)"
| "nano_handler c (FetchSettled k answer random) s =
     (case task_at s k of
        Some (FetchTask req index currentPageIndex') \<Rightarrow>
          nano_fetchImageForPage_settled c index currentPageIndex' answer random (settle k s)
      | _ \<Rightarrow> s)"
| "nano_handler c (EditSettled k answer) s =
     (case task_at s k of
        Some (EditTask req currentPageIndex') \<Rightarrow>
          nano_handleEditImage_settled currentPageIndex' (editStoryImage_answer_of c answer)
            (settle k s)
      | _ \<Rightarrow> s)"

definition nano_step :: "client \<Rightarrow> event \<Rightarrow> app \<Rightarrow> error + app" where
  "nano_step c e s =
     (let s' = nano_handler c e s in if deps_changed e s s' then nano_pageEffect c s' else Inr s')"

text \<open>The client of the first copy, from \<open>cvc-story-magic/services/geminiService.ts\<close>.\<close>

definition cvc_client :: client where
  "cvc_client =
     \<lparr> story_request_of = StoryRequest, image_request_of = image_request,
       generateStoryImage_of = generateStoryImage,
       editStoryImage_request_of = editStoryImage_request,
       editStoryImage_answer_of = editStoryImage_answer \<rparr>"

text \<open>A client that sends and returns what the client of the first copy does.\<close>

definition same_client :: "client \<Rightarrow> bool" where
  "same_client c \<longleftrightarrow>
     (\<forall>t. story_request_of c t = StoryRequest t) \<and>
     (\<forall>p. image_request_of c p = image_request p) \<and>
     (\<forall>a r. generateStoryImage_of c a r = generateStoryImage a r) \<and>
     (\<forall>i p. editStoryImage_request_of c i p = editStoryImage_request i p) \<and>
     (\<forall>a. editStoryImage_answer_of c a = editStoryImage_answer a)"

section \<open>Vocabulary of the properties, and example data\<close>

definition cached_at :: "int \<Rightarrow> app \<Rightarrow> string option" where
  "cached_at i s = cachedImages s i"

text \<open>Before a story is read, the cache is empty.\<close>

definition cache_clear :: "app \<Rightarrow> bool" where
  "cache_clear s \<longleftrightarrow>
     (appState s = SETUP \<or> appState s = LOADING_STORY \<longrightarrow> cachedImages s = Map.empty)"

text \<open>The request failed, or its response holds no inline image.\<close>

definition image_unavailable :: "error + response \<Rightarrow> bool" where
  "image_unavailable answer \<longleftrightarrow>
     (case answer of Inl e \<Rightarrow> True | Inr r \<Rightarrow> extract_image (response_parts r) = None)"

text \<open>Navigation, fetch and edit, as events.\<close>

fun navigation_fetch_or_edit :: "event \<Rightarrow> bool" where
  "navigation_fetch_or_edit PrevPage = True"
| "navigation_fetch_or_edit NextPage = True"
| "navigation_fetch_or_edit (FetchSettled k answer random) = True"
| "navigation_fetch_or_edit (TypeEdit t) = True"
| "navigation_fetch_or_edit SubmitEdit = True"
| "navigation_fetch_or_edit (EditSettled k answer) = True"
| "navigation_fetch_or_edit e = False"

fun image_settled :: "event \<Rightarrow> bool" where
  "image_settled (FetchSettled k answer random) = True"
| "image_settled (EditSettled k answer) = True"
| "image_settled e = False"

definition example_page :: "string \<Rightarrow> string \<Rightarrow> StoryPage" where
  "example_page sentence description =
     \<lparr> page_text = sentence, imageDescription = description, imageUrl = None \<rparr>"

definition dog_story :: Story where
  "dog_story = \<lparr> title = ''The Dog'', pages = [example_page ''The dog sat.'' ''a dog'',
                                               example_page ''The dog ran.'' ''a run''] \<rparr>"

definition cat_story :: Story where
  "cat_story = \<lparr> title = ''The Cat'', pages = [example_page ''The cat sat.'' ''a cat''] \<rparr>"

text \<open>A page is being read, its picture is there, and the edit box holds two spaces.\<close>

definition blank_edit :: app where
  "blank_edit =
     init\<lparr> appState := READING, story := Some cat_story,
           cachedImages := Map.empty(0 \<mapsto> ''data:image/png;base64,AAAA''),
           editPrompt := ''  '' \<rparr>"

definition image_response :: "string \<Rightarrow> response" where
  "image_response d =
     Response (Some [Candidate (Some (Content (Some
       [Part None, Part (Some (InlineData (Some ''image/png'') (Some d)))])))])"

section \<open>Auxiliary facts\<close>

subsection \<open>Lists with one element removed\<close>

lemma filter_without_nth:
  assumes "k < length xs" and "\<not> P (xs ! k)"
  shows "filter P (take k xs @ drop (Suc k) xs) = filter P xs"
proof -
  have "xs = take k xs @ xs ! k # drop (Suc k) xs"
    using assms(1) by (rule id_take_nth_drop)
  then have "filter P xs = filter P (take k xs @ xs ! k # drop (Suc k) xs)"
    by simp
  also have "\<dots> = filter P (take k xs @ drop (Suc k) xs)"
    using assms(2) by simp
  finally show ?thesis by simp
qed

lemma filter_without_nth_length:
  assumes "k < length xs" and "P (xs ! k)"
  shows "length (filter P xs) = Suc (length (filter P (take k xs @ drop (Suc k) xs)))"
proof -
  have "xs = take k xs @ xs ! k # drop (Suc k) xs"
    using assms(1) by (rule id_take_nth_drop)
  then have "filter P xs = filter P (take k xs @ xs ! k # drop (Suc k) xs)"
    by simp
  also have "\<dots> = filter P (take k xs) @ xs ! k # filter P (drop (Suc k) xs)"
    using assms(2) by simp
  finally show ?thesis by simp
qed

subsection \<open>What the client returns is never empty\<close>

lemma extract_image_nonempty: "extract_image ps = Some url \<Longrightarrow> url \<noteq> []"
  by (induction ps rule: extract_image.induct) (auto split: if_splits)

lemma generateStoryImage_nonempty: "generateStoryImage answer random = Inr url \<Longrightarrow> url \<noteq> []"
  by (auto simp: generateStoryImage_def generateStoryImage_try_def try_catch_def placeholder_url_def
      split: sum.splits option.splits dest: extract_image_nonempty)

lemma editStoryImage_answer_nonempty: "editStoryImage_answer answer = Inr url \<Longrightarrow> url \<noteq> []"
  by (auto simp: editStoryImage_answer_def editStoryImage_try_def try_catch_def
      split: sum.splits option.splits dest: extract_image_nonempty)

lemma placeholderImageUrl_nonempty: "placeholderImageUrl \<noteq> []"
  by (simp add: placeholderImageUrl_def)

subsection \<open>The regular expression accepts only the shape of a data URL\<close>

lemma strip_literal_Some: "strip_literal p s = Some r \<Longrightarrow> s = p @ r"
  by (induction p s rule: strip_literal.induct) (auto split: if_splits)

lemma match_groups_Some:
  "match_groups k r = Some (m, d) \<Longrightarrow> m \<noteq> [] \<and> d \<noteq> [] \<and> r = m @ '';base64,'' @ d"
proof (induction k)
  case 0
  then show ?case by simp
next
  case (Suc k)
  show ?case
  proof (cases "match_groups k r = Some (m, d)")
    case True
    then show ?thesis by (rule Suc.IH)
  next
    case False
    with Suc.prems obtain rest where
      m: "dot_plus (take (Suc k) r)" "m = take (Suc k) r" and
      rest: "strip_literal '';base64,'' (drop (Suc k) r) = Some rest" "dot_plus rest" "d = rest"
      by (auto split: if_splits option.splits)
    from rest(1) have "drop (Suc k) r = '';base64,'' @ rest"
      by (rule strip_literal_Some)
    then have "r = take (Suc k) r @ '';base64,'' @ rest"
      by (metis append_take_drop_id)
    with m rest show ?thesis by (simp add: dot_plus_def)
  qed
qed

lemma match_data_url_shape: "match_data_url s = Some ms \<Longrightarrow> data_uri_shape s"
proof -
  assume "match_data_url s = Some ms"
  then obtain r m d where r: "strip_literal ''data:'' s = Some r"
    and g: "match_groups (length r) r = Some (m, d)"
    by (auto simp: match_data_url_def split: option.splits)
  from r have "s = ''data:'' @ r" by (rule strip_literal_Some)
  moreover from g have "m \<noteq> [] \<and> d \<noteq> [] \<and> r = m @ '';base64,'' @ d"
    by (rule match_groups_Some)
  ultimately show ?thesis
    unfolding data_uri_shape_def by blast
qed

subsection \<open>Frames\<close>

lemma inv_core: "core s = core s' \<Longrightarrow> inv s = inv s'"
  by (simp add: core_def inv_def)

lemma core_fetchImageForPage [simp]: "core (fetchImageForPage c i index prompt s) = core s"
  by (simp add: core_def fetchImageForPage_def story_tasks_def)

lemma core_editPrompt [simp]: "core (s\<lparr> editPrompt := t \<rparr>) = core s"
  by (simp add: core_def story_tasks_def)

lemma core_pageEffect: "pageEffect s = Inr s' \<Longrightarrow> core s' = core s"
  by (auto simp: pageEffect_def Let_def split: option.splits if_splits)

lemma core_handleEditImage [simp]: "core (handleEditImage s) = core s"
  by (auto simp: handleEditImage_def Let_def core_def story_tasks_def handleEditImage_settled_def
      split: option.splits sum.splits)

lemma pageEffect_elsewhere: "appState s \<noteq> READING \<Longrightarrow> pageEffect s = Inr s"
  by (simp add: pageEffect_def split: option.splits)

lemma pageEffect_returns:
  assumes "story s = Some st" and "0 \<le> currentPageIndex s"
    and "currentPageIndex s < int (length (pages st))"
  shows "\<exists>s'. pageEffect s = Inr s'"
  using assms by (simp add: pageEffect_def Let_def at_index_def)

subsection \<open>The invariant holds in every reachable state\<close>

lemma inv_init: "inv init"
  by (simp add: inv_def init_def story_tasks_def)

lemma story_tasks_settle_other:
  assumes "task_at s k = Some t" and "\<not> is_StoryTask t"
  shows "story_tasks (settle k s) = story_tasks s"
  using assms
  by (auto simp: task_at_def settle_def story_tasks_def filter_without_nth split: if_splits
      simp del: filter_append)

lemma story_tasks_settle_story:
  assumes "task_at s k = Some t" and "is_StoryTask t"
  shows "length (story_tasks s) = Suc (length (story_tasks (settle k s)))"
  using assms
  by (auto simp: task_at_def settle_def story_tasks_def split: if_splits
      intro: filter_without_nth_length simp del: filter_append)

lemma settle_fields [simp]:
  "appState (settle k s) = appState s" "story (settle k s) = story s"
  "currentPageIndex (settle k s) = currentPageIndex s" "cachedImages (settle k s) = cachedImages s"
  by (simp_all add: settle_def)

lemma inv_type: "inv s \<Longrightarrow> inv (s\<lparr> topic := t \<rparr>)" "inv s \<Longrightarrow> inv (s\<lparr> editPrompt := t \<rparr>)"
  by (simp_all add: inv_def story_tasks_def)

lemma inv_handleGenerateStory:
  assumes "inv s" and "appState s = SETUP"
  shows "inv (handleGenerateStory s)"
  using assms by (auto simp: inv_def handleGenerateStory_def story_tasks_def)

lemma inv_handleRestart:
  assumes "inv s" and "appState s \<noteq> LOADING_STORY"
  shows "inv (handleRestart v s)"
  using assms by (auto simp: inv_def handleRestart_def story_tasks_def)

lemma inv_handleEditImage: "inv s \<Longrightarrow> inv (handleEditImage s)"
  using inv_core [of "handleEditImage s" s] by simp

lemma inv_goToPrevPage:
  assumes "inv s" and "appState s = READING"
  shows "inv (goToPrevPage s)"
  using assms by (auto simp: inv_def goToPrevPage_def story_tasks_def)

lemma inv_goToNextPage:
  assumes "inv s" and "appState s = READING"
  shows "inv (goToNextPage s)"
  using assms by (auto simp: inv_def goToNextPage_def story_tasks_def split: option.splits)

lemma handleGenerateStory_catch_CVC:
  "handleGenerateStory_catch CVC t s =
     s\<lparr> story := Some (createFallbackStory t), appState := READING,
        cachedImages := Map.empty(0 \<mapsto> placeholderImageUrl) \<rparr>"
  by (simp add: handleGenerateStory_catch_def createFallbackStory_def)

lemma handleGenerateStory_catch_Nano:
  "handleGenerateStory_catch Nano t s =
     s\<lparr> alerts := ''Oops! The magic wand slipped. Please try again.'' # alerts s,
        appState := SETUP \<rparr>"
  by (simp add: handleGenerateStory_catch_def)

lemma inv_handleGenerateStory_catch:
  assumes "currentPageIndex s = 0" and "story_tasks s = []"
    and "\<forall>i u. cachedImages s i = Some u \<longrightarrow> u \<noteq> []"
  shows "inv (handleGenerateStory_catch v t s)"
proof (cases v)
  case CVC
  then show ?thesis
    using assms
    by (simp add: handleGenerateStory_catch_CVC inv_def story_tasks_def createFallbackStory_def
        placeholderImageUrl_nonempty)
next
  case Nano
  then show ?thesis
    using assms by (simp add: handleGenerateStory_catch_Nano inv_def story_tasks_def)
qed

lemma handleGenerateStory_try_threw:
  assumes "handleGenerateStory_try c i outcome s = (s', Some err)"
  shows "currentPageIndex s' = currentPageIndex s \<and> story_tasks s' = story_tasks s \<and>
         cachedImages s' = cachedImages s"
  using assms
  by (auto simp: handleGenerateStory_try_def Let_def story_tasks_def
      split: sum.splits list.splits)

lemma handleGenerateStory_try_returned:
  assumes "handleGenerateStory_try c i outcome s = (s', None)"
  shows "\<exists>st. outcome = Inr st \<and> pages st \<noteq> [] \<and>
           core s' = (READING, Some st, currentPageIndex s, cachedImages s, story_tasks s)"
  using assms
proof (cases outcome)
  case (Inl e)
  with assms show ?thesis by (simp add: handleGenerateStory_try_def)
next
  case (Inr st)
  show ?thesis
  proof (cases "pages st")
    case Nil
    with Inr assms show ?thesis by (simp add: handleGenerateStory_try_def)
  next
    case (Cons p0 ps)
    have base: "core (s\<lparr> story := Some st, appState := READING \<rparr>) =
                (READING, Some st, currentPageIndex s, cachedImages s, story_tasks s)"
      by (simp add: core_def story_tasks_def)
    from Inr Cons assms have "core s' = core (s\<lparr> story := Some st, appState := READING \<rparr>)"
      by (auto simp: handleGenerateStory_try_def Let_def split: list.splits)
    with base Inr Cons show ?thesis by simp
  qed
qed

lemma handleGenerateStory_try_pages:
  assumes "pages st \<noteq> []"
  shows "\<exists>s'. handleGenerateStory_try c i (Inr st) s = (s', None)"
  using assms by (auto simp: handleGenerateStory_try_def Let_def split: list.splits)

lemma inv_handleGenerateStory_settled:
  assumes "currentPageIndex s = 0" and "story_tasks s = []"
    and "\<forall>i u. cachedImages s i = Some u \<longrightarrow> u \<noteq> []"
  shows "inv (handleGenerateStory_settled v t c i outcome s)"
proof (cases "handleGenerateStory_try c i outcome s")
  case (Pair s' r)
  show ?thesis
  proof (cases r)
    case None
    with Pair obtain st where "pages st \<noteq> []"
      and "core s' = (READING, Some st, currentPageIndex s, cachedImages s, story_tasks s)"
      using handleGenerateStory_try_returned by blast
    with assms have "inv s'"
      by (simp add: core_def inv_def)
    with Pair None show ?thesis by (simp add: handleGenerateStory_settled_def)
  next
    case (Some err)
    with Pair have "currentPageIndex s' = 0" "story_tasks s' = []"
      "\<forall>i u. cachedImages s' i = Some u \<longrightarrow> u \<noteq> []"
      using handleGenerateStory_try_threw [of c i outcome s s' err] assms by simp_all
    then have "inv (handleGenerateStory_catch v t s')"
      by (rule inv_handleGenerateStory_catch)
    with Pair Some show ?thesis by (simp add: handleGenerateStory_settled_def)
  qed
qed

lemma story_awaited:
  assumes "inv s" and "task_at s k = Some (StoryTask req t c i)"
  shows "appState s = LOADING_STORY \<and> currentPageIndex s = 0 \<and> story_tasks (settle k s) = []"
proof -
  have len: "length (story_tasks s) = Suc (length (story_tasks (settle k s)))"
    using assms(2) by (rule story_tasks_settle_story) simp
  then have "story_tasks s \<noteq> []" by auto
  with assms(1) have loading: "appState s = LOADING_STORY"
    by (auto simp: inv_def)
  with assms(1) have "currentPageIndex s = 0" "length (story_tasks s) \<le> 1"
    by (simp_all add: inv_def)
  with len loading show ?thesis by simp
qed

lemma inv_story_settled:
  assumes "inv s" and "task_at s k = Some (StoryTask req t c i)"
  shows "inv (handleGenerateStory_settled v t c i outcome (settle k s))"
proof -
  from assms have "currentPageIndex (settle k s) = 0" "story_tasks (settle k s) = []"
    using story_awaited by simp_all
  moreover from assms(1) have "\<forall>i u. cachedImages (settle k s) i = Some u \<longrightarrow> u \<noteq> []"
    by (simp add: inv_def)
  ultimately show ?thesis by (rule inv_handleGenerateStory_settled)
qed

lemma inv_fetch_settled:
  assumes "inv s" and "task_at s k = Some (FetchTask req index i)"
  shows "inv (fetchImageForPage_settled index i answer random (settle k s))"
proof -
  have "story_tasks (settle k s) = story_tasks s"
    using assms(2) by (rule story_tasks_settle_other) simp
  with assms(1) show ?thesis
    by (auto simp: inv_def fetchImageForPage_settled_def Let_def story_tasks_def
        split: sum.splits dest: generateStoryImage_nonempty)
qed

lemma inv_edit_settled:
  assumes "inv s" and "task_at s k = Some (EditTask req i)"
  shows "inv (handleEditImage_settled i (editStoryImage_answer answer) (settle k s))"
proof -
  have "story_tasks (settle k s) = story_tasks s"
    using assms(2) by (rule story_tasks_settle_other) simp
  with assms(1) show ?thesis
    by (auto simp: inv_def handleEditImage_settled_def story_tasks_def
        split: sum.splits dest: editStoryImage_answer_nonempty)
qed

lemma inv_handler:
  assumes "inv s" and "enabled e s"
  shows "inv (handler v e s)"
proof (cases e)
  case (TypeTopic t)
  with assms show ?thesis by (simp add: inv_type)
next
  case SubmitStory
  with assms show ?thesis by (simp add: inv_handleGenerateStory)
next
  case Restart
  with assms show ?thesis by (auto simp: reading_shown_def intro: inv_handleRestart)
next
  case (TypeEdit t)
  with assms show ?thesis by (simp add: inv_type)
next
  case SubmitEdit
  with assms show ?thesis by (simp add: inv_handleEditImage)
next
  case PrevPage
  with assms show ?thesis by (simp add: reading_shown_def inv_goToPrevPage)
next
  case NextPage
  with assms show ?thesis by (simp add: reading_shown_def inv_goToNextPage)
next
  case (StorySettled k outcome)
  with assms show ?thesis
    by (auto split: option.splits task.splits intro: inv_story_settled)
next
  case (FetchSettled k answer random)
  with assms show ?thesis
    by (auto split: option.splits task.splits intro: inv_fetch_settled)
next
  case (EditSettled k answer)
  with assms show ?thesis
    by (auto split: option.splits task.splits intro: inv_edit_settled)
qed

lemma inv_step:
  assumes "inv s" and "enabled e s" and "step v e s = Inr s'"
  shows "inv s'"
proof -
  have h: "inv (handler v e s)" using assms(1,2) by (rule inv_handler)
  show ?thesis
  proof (cases "deps_changed e s (handler v e s)")
    case True
    with assms(3) have "pageEffect (handler v e s) = Inr s'"
      by (simp add: step_def)
    then have "core s' = core (handler v e s)" by (rule core_pageEffect)
    with h show ?thesis using inv_core by blast
  next
    case False
    with assms(3) h show ?thesis by (simp add: step_def)
  qed
qed

lemma reachable_inv: "reachable v s \<Longrightarrow> inv s"
  by (induction rule: reachable.induct) (auto intro: inv_init inv_step)

lemma reachable_run: "reachable v s \<Longrightarrow> run v es s = Some s' \<Longrightarrow> reachable v s'"
proof (induction es arbitrary: s)
  case Nil
  then show ?case by simp
next
  case (Cons e es)
  from Cons.prems(2) obtain s1 where "enabled e s" "step v e s = Inr s1" "run v es s1 = Some s'"
    by (auto split: if_splits sum.splits)
  with Cons.prems(1) have "reachable v s1"
    using reachable_step by blast
  then show ?case using \<open>run v es s1 = Some s'\<close> by (rule Cons.IH)
qed

text \<open>Unfolding of the model on concrete runs.\<close>

lemmas evaluation =
  step_def deps_changed_def pageEffect_def handleGenerateStory_def trim_def is_white_space_def
  init_def task_at_def settle_def handleGenerateStory_settled_def handleGenerateStory_try_def
  fetchImageForPage_def fetchImageForPage_settled_def at_index_def reading_shown_def
  edit_bar_shown_def isImageLoading_def handleEditImage_def handleEditImage_settled_def
  editStoryImage_request_def editStoryImage_answer_def editStoryImage_try_def match_data_url_def
  dot_plus_def is_line_terminator_def edit_request_def goToNextPage_def goToPrevPage_def
  dog_story_def cat_story_def example_page_def image_response_def Let_def
  generateStoryImage_def generateStoryImage_try_def try_catch_def handleRestart_def
  cached_at_def image_request_def placeholder_url_def

subsection \<open>What an event changes\<close>

lemma step_core:
  assumes "step v e s = Inr s'"
  shows "core s' = core (handler v e s)"
proof (cases "deps_changed e s (handler v e s)")
  case True
  with assms have "pageEffect (handler v e s) = Inr s'" by (simp add: step_def)
  then show ?thesis by (rule core_pageEffect)
next
  case False
  with assms show ?thesis by (simp add: step_def)
qed

subsection \<open>The cache stays empty until an image call settles\<close>

lemma cache_clear_core: "core s = core s' \<Longrightarrow> cache_clear s = cache_clear s'"
  by (simp add: core_def cache_clear_def)

lemma cache_clear_story_settled:
  assumes "cachedImages s = Map.empty"
  shows "cache_clear (handleGenerateStory_settled v t c i outcome s)"
proof (cases "handleGenerateStory_try c i outcome s")
  case (Pair s1 r)
  show ?thesis
  proof (cases r)
    case None
    with Pair have "appState s1 = READING"
      using handleGenerateStory_try_returned [of c i outcome s s1] by (auto simp: core_def)
    with Pair None show ?thesis
      by (simp add: handleGenerateStory_settled_def cache_clear_def)
  next
    case (Some err)
    with Pair assms have "cachedImages s1 = Map.empty"
      using handleGenerateStory_try_threw [of c i outcome s s1 err] by simp
    with Pair Some show ?thesis
      by (cases v)
        (simp_all add: handleGenerateStory_settled_def cache_clear_def
          handleGenerateStory_catch_CVC handleGenerateStory_catch_Nano)
  qed
qed

lemma cache_clear_handler:
  assumes "inv s" and "cache_clear s" and "enabled e s" and "\<not> image_settled e"
  shows "cache_clear (handler v e s)"
proof (cases e)
  case (TypeTopic t)
  with assms show ?thesis by (simp add: cache_clear_def)
next
  case SubmitStory
  with assms show ?thesis by (simp add: cache_clear_def handleGenerateStory_def)
next
  case Restart
  then show ?thesis by (simp add: cache_clear_def handleRestart_def)
next
  case (TypeEdit t)
  with assms show ?thesis by (simp add: cache_clear_def)
next
  case SubmitEdit
  with assms(2) show ?thesis
    using cache_clear_core [of "handleEditImage s" s] by simp
next
  case PrevPage
  with assms show ?thesis
    by (simp add: cache_clear_def goToPrevPage_def reading_shown_def)
next
  case NextPage
  with assms show ?thesis
    by (auto simp: cache_clear_def goToNextPage_def reading_shown_def split: option.splits)
next
  case (StorySettled k outcome)
  with assms(3) obtain req t c i where task: "task_at s k = Some (StoryTask req t c i)"
    by (auto split: option.splits task.splits)
  with assms(1) have "appState s = LOADING_STORY"
    using story_awaited by blast
  with assms(2) have "cachedImages (settle k s) = Map.empty"
    by (simp add: cache_clear_def)
  then have "cache_clear (handleGenerateStory_settled v t c i outcome (settle k s))"
    by (rule cache_clear_story_settled)
  with StorySettled task show ?thesis by simp
next
  case (FetchSettled k answer random)
  with assms(4) show ?thesis by simp
next
  case (EditSettled k answer)
  with assms(4) show ?thesis by simp
qed

lemma cache_clear_run:
  assumes "reachable v s" and "cache_clear s" and "run v es s = Some s'"
    and "list_all (\<lambda>e. \<not> image_settled e) es"
  shows "cache_clear s'"
  using assms
proof (induction es arbitrary: s)
  case Nil
  then show ?case by simp
next
  case (Cons e es)
  from Cons.prems(3) obtain s1 where e: "enabled e s" "step v e s = Inr s1"
    and rest: "run v es s1 = Some s'"
    by (auto split: if_splits sum.splits)
  from Cons.prems(1) e have r1: "reachable v s1"
    using reachable_step by blast
  from Cons.prems(1) have "inv s" by (rule reachable_inv)
  with Cons.prems(2,4) e(1) have "cache_clear (handler v e s)"
    using cache_clear_handler by simp
  moreover from e(2) have "core s1 = core (handler v e s)" by (rule step_core)
  ultimately have "cache_clear s1"
    using cache_clear_core by blast
  with r1 rest Cons.prems(4) show ?case
    using Cons.IH by simp
qed

subsection \<open>Restart\<close>

lemma handleRestart_resets:
  "appState (handleRestart v s) = SETUP \<and> story (handleRestart v s) = None \<and>
   currentPageIndex (handleRestart v s) = 0 \<and> cachedImages (handleRestart v s) = Map.empty \<and>
   topic (handleRestart v s) = [] \<and> \<not> isEditingImage (handleRestart v s) \<and>
   editPrompt (handleRestart CVC s) = []"
  by (simp add: handleRestart_def)

subsection \<open>Some runs\<close>

lemma awaiting_story:
  "\<exists>s. run CVC [TypeTopic ''cat'', SubmitStory] init = Some s \<and>
       run Nano [TypeTopic ''cat'', SubmitStory] init = Some s \<and>
       enabled (StorySettled 0 (Inr cat_story)) s \<and>
       task_at s 0 = Some (StoryTask (StoryRequest ''cat'') ''cat'' Map.empty 0) \<and>
       currentPageIndex s = 0"
  by (simp add: evaluation)

lemma empty_story_Nano:
  "map_option appState
     (run Nano [TypeTopic ''cat'', SubmitStory,
                StorySettled 0 (Inr \<lparr> title = ''The Cat'', pages = [] \<rparr>)] init) = Some SETUP"
  by (simp add: evaluation handleGenerateStory_catch_def)

lemma reading_dog:
  "\<exists>s. run CVC [TypeTopic ''dog'', SubmitStory, StorySettled 0 (Inr dog_story)] init = Some s \<and>
       appState s = READING \<and> currentPageIndex s = 0 \<and> story s = Some dog_story"
  by (simp add: evaluation)

lemma navigating_dog:
  "\<exists>s. run CVC [TypeTopic ''dog'', SubmitStory, StorySettled 0 (Inr dog_story),
                 NextPage, PrevPage, NextPage] init = Some s \<and>
       appState s = READING \<and> currentPageIndex s = 1 \<and> story s = Some dog_story"
  by (simp add: evaluation)

lemma cached_cat:
  "\<exists>s. run CVC [TypeTopic ''cat'', SubmitStory, StorySettled 0 (Inr cat_story),
                 FetchSettled 0 (Inr (image_response ''AAAA'')) ''0.5''] init = Some s \<and>
       cachedImages s 0 = Some ''data:image/png;base64,AAAA''"
  by (simp add: evaluation)

lemma editing_cat:
  "\<exists>s s'. run CVC [TypeTopic ''cat'', SubmitStory, StorySettled 0 (Inr cat_story),
                 FetchSettled 0 (Inr (image_response ''AAAA'')) ''0.5'', TypeEdit ''add a hat'',
                 SubmitEdit] init = Some s \<and>
       appState s = READING \<and>
       step CVC (EditSettled 1 (Inl (ServiceFailure ''timeout''))) s = Inr s' \<and>
       cached_at (currentPageIndex s') s' = Some ''data:image/png;base64,AAAA''"
  by (simp add: evaluation)


subsection \<open>The two copies, handler by handler\<close>

lemma same_client_fields:
  assumes "same_client c"
  shows "story_request_of c = StoryRequest" "image_request_of c = image_request"
    "generateStoryImage_of c = generateStoryImage"
    "editStoryImage_request_of c = editStoryImage_request"
    "editStoryImage_answer_of c = editStoryImage_answer"
  using assms by (auto simp: same_client_def intro!: ext)

lemma same_client_cvc: "same_client cvc_client"
  by (simp add: same_client_def cvc_client_def)

lemma nano_goToNextPage_eq: "nano_goToNextPage s = goToNextPage s"
  by (simp add: nano_goToNextPage_def goToNextPage_def)

lemma nano_goToPrevPage_eq: "nano_goToPrevPage s = goToPrevPage s"
  by (simp add: nano_goToPrevPage_def goToPrevPage_def)

lemma nano_fetchImageForPage_eq:
  "same_client c \<Longrightarrow> nano_fetchImageForPage c m i index prompt s = fetchImageForPage m i index prompt s"
  by (simp add: nano_fetchImageForPage_def fetchImageForPage_def same_client_fields)

lemma nano_fetchImageForPage_settled_eq:
  "same_client c \<Longrightarrow>
   nano_fetchImageForPage_settled c index i answer random s =
     fetchImageForPage_settled index i answer random s"
  by (simp add: nano_fetchImageForPage_settled_def fetchImageForPage_settled_def same_client_fields
      Let_def split: sum.splits)

lemma nano_handleEditImage_settled_eq:
  "nano_handleEditImage_settled i result s = handleEditImage_settled i result s"
  by (simp add: nano_handleEditImage_settled_def handleEditImage_settled_def)

lemma nano_handleEditImage_eq: "same_client c \<Longrightarrow> nano_handleEditImage c s = handleEditImage s"
  by (simp add: nano_handleEditImage_def handleEditImage_def same_client_fields
      nano_handleEditImage_settled_eq Let_def split: option.splits sum.splits)

lemma nano_pageEffect_eq: "same_client c \<Longrightarrow> nano_pageEffect c s = pageEffect s"
  by (simp add: nano_pageEffect_def pageEffect_def nano_fetchImageForPage_eq Let_def
      split: option.splits)

lemma nano_handleGenerateStory_eq:
  "same_client c \<Longrightarrow> nano_handleGenerateStory c s = handleGenerateStory s"
  by (simp add: nano_handleGenerateStory_def handleGenerateStory_def same_client_fields)

lemma nano_handleGenerateStory_settled_eq:
  "same_client c \<Longrightarrow>
   nano_handleGenerateStory_settled c m i outcome s = handleGenerateStory_settled Nano t m i outcome s"
  by (simp add: nano_handleGenerateStory_settled_def handleGenerateStory_settled_def
      nano_handleGenerateStory_try_def handleGenerateStory_try_def nano_fetchImageForPage_eq
      nano_handleGenerateStory_catch_def handleGenerateStory_catch_Nano Let_def
      split: sum.splits list.splits prod.splits option.splits)

lemma nano_handleRestart_eq: "nano_handleRestart s = handleRestart Nano s"
  by (simp add: nano_handleRestart_def handleRestart_def)

lemma nano_handler_eq: "same_client c \<Longrightarrow> nano_handler c e s = handler Nano e s"
  by (cases e)
    (simp_all add: nano_handleGenerateStory_eq nano_handleRestart_eq nano_handleEditImage_eq
      nano_goToPrevPage_eq nano_goToNextPage_eq nano_handleGenerateStory_settled_eq
      nano_fetchImageForPage_settled_eq nano_handleEditImage_settled_eq same_client_fields
      split: option.splits task.splits)

lemma nano_step_eq: "same_client c \<Longrightarrow> nano_step c e s = step Nano e s"
  by (simp add: nano_step_def step_def nano_handler_eq nano_pageEffect_eq Let_def)

lemma nano_pageEffect_elsewhere: "appState s \<noteq> READING \<Longrightarrow> nano_pageEffect c s = Inr s"
  by (simp add: nano_pageEffect_def split: option.splits)

lemma nano_handler_shared:
  assumes "same_client c" and "navigation_fetch_or_edit e"
  shows "nano_handler c e s = handler CVC e s"
  using assms
  by (cases e)
    (simp_all add: nano_handleEditImage_eq nano_goToPrevPage_eq nano_goToNextPage_eq
      nano_fetchImageForPage_settled_eq nano_handleEditImage_settled_eq same_client_fields
      split: option.splits task.splits)

lemma step_Restart:
  "step CVC Restart s = Inr (handleRestart CVC s)"
  "nano_step c Restart s = Inr (nano_handleRestart s)"
proof -
  have "pageEffect (handleRestart CVC s) = Inr (handleRestart CVC s)"
    by (rule pageEffect_elsewhere) (simp add: handleRestart_def)
  then show "step CVC Restart s = Inr (handleRestart CVC s)"
    by (simp add: step_def Let_def)
  have "nano_pageEffect c (nano_handleRestart s) = Inr (nano_handleRestart s)"
    by (rule nano_pageEffect_elsewhere) (simp add: nano_handleRestart_def)
  then show "nano_step c Restart s = Inr (nano_handleRestart s)"
    by (simp add: nano_step_def Let_def)
qed

lemma reading_dog_next:
  "\<exists>s s'. run CVC [TypeTopic ''dog'', SubmitStory, StorySettled 0 (Inr dog_story)] init = Some s \<and>
      appState s = READING \<and> story s = Some dog_story \<and>
      step CVC NextPage s = Inr s' \<and> appState s' = READING \<and> currentPageIndex s' = 1"
  by (simp add: evaluation)

section \<open>The generation client never blocks reading, and checks what it edits\<close>

text \<open>
  C4. For every prompt, and whatever the service does, \<open>generateStoryImage\<close> returns a
  non-empty string and never throws; when the request fails or its response holds no
  inline image, what it returns is the placeholder URL with the random number.
\<close>

theorem generateStoryImage_never_throws:
  "(\<exists>url. generateStoryImage (svc (image_request prompt)) random = Inr url \<and> url \<noteq> []) \<and>
   (image_unavailable (svc (image_request prompt)) \<longrightarrow>
      generateStoryImage (svc (image_request prompt)) random = Inr (placeholder_url random))"
proof
  show "\<exists>url. generateStoryImage (svc (image_request prompt)) random = Inr url \<and> url \<noteq> []"
  proof (cases "generateStoryImage_try (svc (image_request prompt))")
    case (Inl e)
    then show ?thesis
      by (simp add: generateStoryImage_def try_catch_def placeholder_url_def)
  next
    case (Inr url)
    then have "generateStoryImage (svc (image_request prompt)) random = Inr url"
      by (simp add: generateStoryImage_def try_catch_def)
    then show ?thesis using generateStoryImage_nonempty by blast
  qed
next
  show "image_unavailable (svc (image_request prompt)) \<longrightarrow>
      generateStoryImage (svc (image_request prompt)) random = Inr (placeholder_url random)"
    by (auto simp: image_unavailable_def generateStoryImage_def generateStoryImage_try_def
        try_catch_def split: sum.splits)
qed

theorem generateStoryImage_never_throws_witness:
  "image_unavailable (Inl (ServiceFailure ''quota'')) \<and>
   generateStoryImage (Inl (ServiceFailure ''quota'')) ''0.5'' =
     Inr ''https://picsum.photos/800/800?random=0.5''"
  using generateStoryImage_never_throws [of "\<lambda>req. Inl (ServiceFailure ''quota'')" "''a dog''" "''0.5''"]
  by (simp add: image_unavailable_def placeholder_url_def)

text \<open>
  C5. An image that does not have the shape \<open>data:<mime>;base64,<payload>\<close> makes
  \<open>editStoryImage\<close> fail with the invalid-format error, and no request is sent to the
  service.
\<close>

theorem editStoryImage_rejects_malformed:
  assumes "\<not> data_uri_shape imageDataUrl"
  shows "editStoryImage svc imageDataUrl prompt = (Inl (Error ''Invalid image data URL format''), [])"
proof -
  from assms have "match_data_url imageDataUrl = None"
    using match_data_url_shape by (cases "match_data_url imageDataUrl") auto
  then show ?thesis
    by (simp add: editStoryImage_def editStoryImage_request_def)
qed

theorem editStoryImage_rejects_malformed_witness:
  "\<not> data_uri_shape ''not-a-data-url'' \<and>
   editStoryImage (\<lambda>req. Inr (image_response ''AAAA'')) ''not-a-data-url'' ''add a hat'' =
     (Inl (Error ''Invalid image data URL format''), [])"
proof -
  have h: "\<not> data_uri_shape ''not-a-data-url''"
    by (simp add: data_uri_shape_def)
  with editStoryImage_rejects_malformed [OF h] show ?thesis by simp
qed

section \<open>Editing the picture of the current page\<close>

text \<open>
  C10. When the edit instruction is blank after trimming, or the current page has no
  cached image, \<open>handleEditImage\<close> returns at once: the whole state is as before (phase,
  story, index, cache, edit text, editing flag), no call is in flight that was not, and
  the event as a whole changes nothing either.
\<close>

theorem handleEditImage_guard:
  assumes "trim (editPrompt s) = [] \<or> cachedImages s (currentPageIndex s) = None"
  shows "handleEditImage s = s \<and> step v SubmitEdit s = Inr s"
proof -
  from assms have "handleEditImage s = s"
    by (auto simp: handleEditImage_def)
  then show ?thesis by (simp add: step_def deps_changed_def)
qed

theorem handleEditImage_guard_witness:
  "trim (editPrompt (blank_edit)) = [] \<and> handleEditImage blank_edit = blank_edit \<and>
   step CVC SubmitEdit blank_edit = Inr blank_edit"
proof -
  have h: "trim (editPrompt blank_edit) = [] \<or>
           cachedImages blank_edit (currentPageIndex blank_edit) = None"
    by (simp add: blank_edit_def trim_def is_white_space_def)
  from handleEditImage_guard [OF h, of CVC] show ?thesis
    by (simp add: blank_edit_def trim_def is_white_space_def)
qed

section \<open>From generating to reading\<close>

text \<open>
  C1, as the code has it. When \<open>generateStoryContent\<close> returns a story in a reachable
  state, the phase becomes \<open>READING\<close> and the current page index is 0 (in the second
  variant: for a story with at least one page). \<open>handleGenerateStory\<close> does not reset
  the image cache: for a story with a page the cache after the transition is the cache
  before it. It is empty if it was empty at the start or the last restart (state
  \<open>s0\<close>) and no image call has settled since.
\<close>

theorem story_success_transition:
  assumes "reachable v s0" and "run v es s0 = Some s"
    and "enabled (StorySettled k (Inr st)) s" and "pages st \<noteq> [] \<or> v = CVC"
  shows "\<exists>s'. step v (StorySettled k (Inr st)) s = Inr s' \<and> appState s' = READING \<and>
           currentPageIndex s' = 0 \<and>
           (pages st \<noteq> [] \<longrightarrow>
              story s' = Some st \<and> cachedImages s' = cachedImages s \<and>
              (cache_clear s0 \<and> list_all (\<lambda>e. \<not> image_settled e) es \<longrightarrow>
                 cachedImages s' = Map.empty))"
proof -
  from assms(3) obtain req t c i where task: "task_at s k = Some (StoryTask req t c i)"
    by (auto split: option.splits task.splits)
  have reach: "reachable v s" using assms(1,2) by (rule reachable_run)
  then have "inv s" by (rule reachable_inv)
  with task have zero: "currentPageIndex s = 0" and loading: "appState s = LOADING_STORY"
    using story_awaited by blast+
  let ?h = "handler v (StorySettled k (Inr st)) s"
  show ?thesis
  proof (cases "pages st")
    case Nil
    with assms(4) have v: "v = CVC" by simp
    let ?f = "(settle k s)\<lparr> story := Some (createFallbackStory t), appState := READING,
                cachedImages := Map.empty(0 \<mapsto> placeholderImageUrl) \<rparr>"
    from task Nil v have h: "?h = ?f"
      by (simp add: handleGenerateStory_settled_def handleGenerateStory_try_def
          handleGenerateStory_catch_CVC)
    have "pageEffect ?f = Inr (?f\<lparr> editPrompt := [] \<rparr>)"
      using zero
      by (simp add: pageEffect_def Let_def createFallbackStory_def placeholderImageUrl_nonempty)
    with h have "step v (StorySettled k (Inr st)) s = Inr (?f\<lparr> editPrompt := [] \<rparr>)"
      by (simp add: step_def deps_changed_def)
    with Nil zero show ?thesis by simp
  next
    case (Cons p0 ps)
    then have pages: "pages st \<noteq> []" by simp
    then obtain s1 where tr: "handleGenerateStory_try c i (Inr st) (settle k s) = (s1, None)"
      using handleGenerateStory_try_pages by blast
    then have "core s1 = (READING, Some st, currentPageIndex (settle k s),
                          cachedImages (settle k s), story_tasks (settle k s))"
      using handleGenerateStory_try_returned [OF tr] by auto
    moreover from task tr have h: "?h = s1"
      by (simp add: handleGenerateStory_settled_def)
    ultimately have hc: "appState ?h = READING" "story ?h = Some st" "currentPageIndex ?h = 0"
      "cachedImages ?h = cachedImages s"
      using zero by (simp_all add: core_def)
    with pages obtain s' where eff: "pageEffect ?h = Inr s'"
      using pageEffect_returns [of ?h st] by auto
    then have "core s' = core ?h" by (rule core_pageEffect)
    with hc have s': "appState s' = READING" "currentPageIndex s' = 0" "story s' = Some st"
      "cachedImages s' = cachedImages s"
      by (simp_all add: core_def)
    have "cachedImages s' = Map.empty"
      if "cache_clear s0 \<and> list_all (\<lambda>e. \<not> image_settled e) es"
    proof -
      from that have "cache_clear s"
        using cache_clear_run [OF assms(1) _ assms(2)] by simp
      with loading s'(4) show ?thesis by (simp add: cache_clear_def)
    qed
    moreover from eff have "step v (StorySettled k (Inr st)) s = Inr s'"
      by (simp add: step_def deps_changed_def)
    ultimately show ?thesis using s' by blast
  qed
qed

theorem story_success_transition_witness:
  "\<exists>s s'. run CVC [TypeTopic ''cat'', SubmitStory] init = Some s \<and>
      enabled (StorySettled 0 (Inr cat_story)) s \<and> pages cat_story \<noteq> [] \<and>
      cache_clear init \<and> list_all (\<lambda>e. \<not> image_settled e) [TypeTopic ''cat'', SubmitStory] \<and>
      step CVC (StorySettled 0 (Inr cat_story)) s = Inr s' \<and> appState s' = READING \<and>
      currentPageIndex s' = 0 \<and> story s' = Some cat_story \<and> cachedImages s' = Map.empty"
proof -
  obtain s where s: "run CVC [TypeTopic ''cat'', SubmitStory] init = Some s"
    "enabled (StorySettled 0 (Inr cat_story)) s"
    using awaiting_story by blast
  have p: "pages cat_story \<noteq> []" by (simp add: cat_story_def)
  then have p': "pages cat_story \<noteq> [] \<or> CVC = CVC" by simp
  have c: "cache_clear init" by (simp add: cache_clear_def init_def)
  have l: "list_all (\<lambda>e. \<not> image_settled e) [TypeTopic ''cat'', SubmitStory]" by simp
  from story_success_transition [OF reachable_init s(1) s(2) p'] s p c l show ?thesis by auto
qed

text \<open>
  C1, as stated, fails on the cache. A story about a dog is generated and its pictures
  are requested; the user restarts; the answer for page 0 of the dog story arrives and
  is written into the cache that the restart emptied; a story about a cat is requested
  and generated. At the transition to \<open>READING\<close> the cache is not empty: page 0 of the
  cat story holds the picture of the dog.
\<close>

theorem cache_not_reset_counterexample:
  "map_option appState
     (run CVC [TypeTopic ''dog'', SubmitStory, StorySettled 0 (Inr dog_story), Restart,
               FetchSettled 0 (Inr (image_response ''AAAA'')) ''0.5'',
               TypeTopic ''cat'', SubmitStory] init) = Some LOADING_STORY \<and>
   map_option appState
     (run CVC [TypeTopic ''dog'', SubmitStory, StorySettled 0 (Inr dog_story), Restart,
               FetchSettled 0 (Inr (image_response ''AAAA'')) ''0.5'',
               TypeTopic ''cat'', SubmitStory, StorySettled 3 (Inr cat_story)] init) = Some READING \<and>
   map_option (cached_at 0)
     (run CVC [TypeTopic ''dog'', SubmitStory, StorySettled 0 (Inr dog_story), Restart,
               FetchSettled 0 (Inr (image_response ''AAAA'')) ''0.5'',
               TypeTopic ''cat'', SubmitStory, StorySettled 3 (Inr cat_story)] init) =
     Some (Some ''data:image/png;base64,AAAA'')"
  by (simp add: evaluation)

section \<open>The two variants\<close>

text \<open>
  C2. The two copies of the component, the second run against a client \<open>c\<close>.
  \<^item> When the awaited story generation fails, the first copy installs the one-page
    fallback story and goes to \<open>READING\<close> with no alert; the second alerts and goes
    back to \<open>SETUP\<close> with the story it had.
  \<^item> On navigation, fetch and edit events the two copies make the same step from every
    state, when the client of the second sends and returns what the client of the first
    does.
  \<^item> On restart they do not agree: the first empties the edit instruction, the second
    sets it to a sentence about a cat, and they set every other cell alike.
\<close>

theorem variants_compared:
  "(reachable CVC s \<and> enabled (StorySettled k (Inl err)) s \<longrightarrow>
      (\<exists>s1 t. step CVC (StorySettled k (Inl err)) s = Inr s1 \<and> appState s1 = READING \<and>
         story s1 = Some (createFallbackStory t) \<and> length (pages (createFallbackStory t)) = 1 \<and>
         alerts s1 = alerts s)) \<and>
   (enabled (StorySettled k (Inl err)) s \<longrightarrow>
      (\<exists>s2. nano_step c (StorySettled k (Inl err)) s = Inr s2 \<and> appState s2 = SETUP \<and>
         story s2 = story s \<and>
         alerts s2 = ''Oops! The magic wand slipped. Please try again.'' # alerts s)) \<and>
   (same_client c \<longrightarrow>
      (\<forall>e. navigation_fetch_or_edit e \<longrightarrow> nano_step c e s = step CVC e s)) \<and>
   (\<exists>s1. step CVC Restart s = Inr s1 \<and> editPrompt s1 = [] \<and>
      nano_step c Restart s = Inr (s1\<lparr> editPrompt := ''A funny cat who is a fix-it all.'' \<rparr>))"
proof (intro conjI impI allI)
  assume a: "reachable CVC s \<and> enabled (StorySettled k (Inl err)) s"
  then obtain req t m i where task: "task_at s k = Some (StoryTask req t m i)"
    by (auto split: option.splits task.splits)
  from a have "inv s" using reachable_inv by blast
  with task have zero: "currentPageIndex s = 0"
    using story_awaited by blast
  let ?f = "(settle k s)\<lparr> story := Some (createFallbackStory t), appState := READING,
                cachedImages := Map.empty(0 \<mapsto> placeholderImageUrl) \<rparr>"
  from task have h: "handler CVC (StorySettled k (Inl err)) s = ?f"
    by (simp add: handleGenerateStory_settled_def handleGenerateStory_try_def
        handleGenerateStory_catch_CVC)
  have "pageEffect ?f = Inr (?f\<lparr> editPrompt := [] \<rparr>)"
    using zero
    by (simp add: pageEffect_def Let_def createFallbackStory_def placeholderImageUrl_nonempty)
  with h have "step CVC (StorySettled k (Inl err)) s = Inr (?f\<lparr> editPrompt := [] \<rparr>)"
    by (simp add: step_def deps_changed_def)
  moreover have "length (pages (createFallbackStory t)) = 1"
    by (simp add: createFallbackStory_def)
  ultimately show "\<exists>s1 t. step CVC (StorySettled k (Inl err)) s = Inr s1 \<and> appState s1 = READING \<and>
         story s1 = Some (createFallbackStory t) \<and> length (pages (createFallbackStory t)) = 1 \<and>
         alerts s1 = alerts s"
    by (auto simp: settle_def)
next
  assume "enabled (StorySettled k (Inl err)) s"
  then obtain req t m i where task: "task_at s k = Some (StoryTask req t m i)"
    by (auto split: option.splits task.splits)
  let ?g = "(settle k s)\<lparr> alerts := ''Oops! The magic wand slipped. Please try again.'' # alerts s,
                appState := SETUP \<rparr>"
  from task have h: "nano_handler c (StorySettled k (Inl err)) s = ?g"
    by (simp add: nano_handleGenerateStory_settled_def nano_handleGenerateStory_try_def
        nano_handleGenerateStory_catch_def settle_def)
  have "nano_pageEffect c ?g = Inr ?g"
    by (rule nano_pageEffect_elsewhere) simp
  with h have "nano_step c (StorySettled k (Inl err)) s = Inr ?g"
    by (simp add: nano_step_def deps_changed_def)
  then show "\<exists>s2. nano_step c (StorySettled k (Inl err)) s = Inr s2 \<and> appState s2 = SETUP \<and>
         story s2 = story s \<and>
         alerts s2 = ''Oops! The magic wand slipped. Please try again.'' # alerts s"
    by (simp add: settle_def)
next
  fix e
  assume c: "same_client c" and e: "navigation_fetch_or_edit e"
  then have "nano_handler c e s = handler CVC e s"
    by (rule nano_handler_shared)
  with c show "nano_step c e s = step CVC e s"
    by (simp add: nano_step_def step_def nano_pageEffect_eq Let_def)
next
  have "nano_handleRestart s =
        (handleRestart CVC s)\<lparr> editPrompt := ''A funny cat who is a fix-it all.'' \<rparr>"
    by (simp add: nano_handleRestart_def handleRestart_def)
  moreover have "editPrompt (handleRestart CVC s) = []"
    by (simp add: handleRestart_def)
  ultimately show "\<exists>s1. step CVC Restart s = Inr s1 \<and> editPrompt s1 = [] \<and>
      nano_step c Restart s = Inr (s1\<lparr> editPrompt := ''A funny cat who is a fix-it all.'' \<rparr>)"
    by (simp add: step_Restart)
qed

theorem variants_compared_witness:
  "\<exists>s s1 s2 r r' q.
     run CVC [TypeTopic ''cat'', SubmitStory] init = Some s \<and>
     enabled (StorySettled 0 (Inl (ServiceFailure ''quota''))) s \<and>
     step CVC (StorySettled 0 (Inl (ServiceFailure ''quota''))) s = Inr s1 \<and> appState s1 = READING \<and>
     nano_step cvc_client (StorySettled 0 (Inl (ServiceFailure ''quota''))) s = Inr s2 \<and>
     appState s2 = SETUP \<and>
     run CVC [TypeTopic ''dog'', SubmitStory, StorySettled 0 (Inr dog_story)] init = Some r \<and>
     appState r = READING \<and> story r = Some dog_story \<and>
     same_client cvc_client \<and> navigation_fetch_or_edit NextPage \<and>
     step CVC NextPage r = Inr r' \<and> currentPageIndex r' = 1 \<and>
     nano_step cvc_client NextPage r = Inr r' \<and>
     step CVC Restart r = Inr q \<and> editPrompt q = [] \<and>
     nano_step cvc_client Restart r = Inr (q\<lparr> editPrompt := ''A funny cat who is a fix-it all.'' \<rparr>)"
proof -
  obtain s where s: "run CVC [TypeTopic ''cat'', SubmitStory] init = Some s"
    "enabled (StorySettled 0 (Inr cat_story)) s"
    using awaiting_story by blast
  from s(1) have rs: "reachable CVC s"
    using reachable_run [OF reachable_init] by blast
  from s(2) have en: "enabled (StorySettled 0 (Inl (ServiceFailure ''quota''))) s"
    by simp
  obtain r r' where r: "run CVC [TypeTopic ''dog'', SubmitStory, StorySettled 0 (Inr dog_story)] init = Some r"
    "appState r = READING" "story r = Some dog_story"
    "step CVC NextPage r = Inr r'" "currentPageIndex r' = 1"
    using reading_dog_next by blast
  note at_s = variants_compared [of s 0 "ServiceFailure ''quota''" cvc_client]
  note at_r = variants_compared [of r 0 "ServiceFailure ''quota''" cvc_client]
  from at_s rs en obtain s1 s2 where
    "step CVC (StorySettled 0 (Inl (ServiceFailure ''quota''))) s = Inr s1" "appState s1 = READING"
    "nano_step cvc_client (StorySettled 0 (Inl (ServiceFailure ''quota''))) s = Inr s2"
    "appState s2 = SETUP"
    by blast
  moreover have n: "navigation_fetch_or_edit NextPage" by simp
  moreover from at_r same_client_cvc n r(4) have "nano_step cvc_client NextPage r = Inr r'"
    by metis
  moreover from at_r obtain q where "step CVC Restart r = Inr q" "editPrompt q = []"
    "nano_step cvc_client Restart r = Inr (q\<lparr> editPrompt := ''A funny cat who is a fix-it all.'' \<rparr>)"
    by blast
  ultimately show ?thesis
    using s(1) en r same_client_cvc by blast
qed

text \<open>
  C3. \<open>handleRestart\<close> of the second variant does not put the edit instruction back to
  its initial value, the empty string: it sets it to a sentence about a cat.
\<close>

theorem handleRestart_Nano_editPrompt:
  "editPrompt (handleRestart Nano s) = ''A funny cat who is a fix-it all.'' \<and> editPrompt init = []"
  by (simp add: handleRestart_def init_def)

section \<open>The cache under fetch and edit\<close>

text \<open>
  C6. The events of an edit that fails leave the whole image cache as it is: the
  submission (which is where an image of invalid format fails, with no request sent),
  and the arrival of an answer from which \<open>editStoryImage\<close> throws (the call rejected,
  or its response holds no image).
\<close>

theorem failed_edit_keeps_cache:
  assumes "e = SubmitEdit \<or>
           (\<exists>k answer err. e = EditSettled k answer \<and> editStoryImage_answer answer = Inl err)"
    and "step v e s = Inr s'"
  shows "cachedImages s' = cachedImages s"
proof -
  have "cachedImages (handler v e s) = cachedImages s"
    using assms(1)
  proof
    assume "e = SubmitEdit"
    then show ?thesis
      using core_handleEditImage [of s] by (simp add: core_def)
  next
    assume "\<exists>k answer err. e = EditSettled k answer \<and> editStoryImage_answer answer = Inl err"
    then show ?thesis
      by (auto simp: handleEditImage_settled_def split: option.splits task.splits)
  qed
  moreover have "core s' = core (handler v e s)"
    using assms(2) by (rule step_core)
  ultimately show ?thesis by (simp add: core_def)
qed

theorem failed_edit_keeps_cache_witness:
  "\<exists>s s'. run CVC [TypeTopic ''cat'', SubmitStory, StorySettled 0 (Inr cat_story),
                 FetchSettled 0 (Inr (image_response ''AAAA'')) ''0.5'', TypeEdit ''add a hat'',
                 SubmitEdit] init = Some s \<and>
       appState s = READING \<and>
       editStoryImage_answer (Inl (ServiceFailure ''timeout'')) = Inl (ServiceFailure ''timeout'') \<and>
       step CVC (EditSettled 1 (Inl (ServiceFailure ''timeout''))) s = Inr s' \<and>
       cached_at (currentPageIndex s') s' = Some ''data:image/png;base64,AAAA'' \<and>
       cachedImages s' = cachedImages s"
proof -
  obtain s s' where s: "run CVC [TypeTopic ''cat'', SubmitStory, StorySettled 0 (Inr cat_story),
                 FetchSettled 0 (Inr (image_response ''AAAA'')) ''0.5'', TypeEdit ''add a hat'',
                 SubmitEdit] init = Some s" "appState s = READING"
    and s': "step CVC (EditSettled 1 (Inl (ServiceFailure ''timeout''))) s = Inr s'"
       "cached_at (currentPageIndex s') s' = Some ''data:image/png;base64,AAAA''"
    using editing_cat by blast
  have a: "editStoryImage_answer (Inl (ServiceFailure ''timeout'')) = Inl (ServiceFailure ''timeout'')"
    by (simp add: editStoryImage_answer_def editStoryImage_try_def try_catch_def)
  then have e: "EditSettled 1 (Inl (ServiceFailure ''timeout'')) = SubmitEdit \<or>
     (\<exists>k answer err. EditSettled 1 (Inl (ServiceFailure ''timeout'')) = EditSettled k answer \<and>
        editStoryImage_answer answer = Inl err)"
    by blast
  have c: "cachedImages s' = cachedImages s"
    using failed_edit_keeps_cache [OF e s'(1)] .
  with s s' a show ?thesis by blast
qed

text \<open>
  C7, as the code has it. A fetch requested for an index that has an entry in the
  cache its closure sees (the cache of a reachable state \<open>r\<close>) returns at once: no call
  is made and the state, so every entry, is as before. The cache is a mapping, with at
  most one entry for an index.
\<close>

theorem fetchImageForPage_cached:
  assumes "reachable v r" and "cachedImages r index = Some url"
  shows "fetchImageForPage (cachedImages r) (currentPageIndex r) index prompt s = s"
proof -
  from assms have "url \<noteq> []"
    using reachable_inv [of v r] by (auto simp: inv_def)
  with assms(2) show ?thesis by (simp add: fetchImageForPage_def)
qed

theorem fetchImageForPage_cached_witness:
  "\<exists>s. run CVC [TypeTopic ''cat'', SubmitStory, StorySettled 0 (Inr cat_story),
                 FetchSettled 0 (Inr (image_response ''AAAA'')) ''0.5''] init = Some s \<and>
       cachedImages s 0 = Some ''data:image/png;base64,AAAA'' \<and>
       fetchImageForPage (cachedImages s) (currentPageIndex s) 0 ''a cat'' s = s"
proof -
  obtain s where s: "run CVC [TypeTopic ''cat'', SubmitStory, StorySettled 0 (Inr cat_story),
                 FetchSettled 0 (Inr (image_response ''AAAA'')) ''0.5''] init = Some s"
     "cachedImages s 0 = Some ''data:image/png;base64,AAAA''"
    using cached_cat by blast
  from s(1) have "reachable CVC s"
    using reachable_run [OF reachable_init] by blast
  from fetchImageForPage_cached [OF this s(2)] s show ?thesis by blast
qed

text \<open>
  C7, as stated, fails: a successful fetch overwrites a cached value. When a story
  arrives, \<open>handleGenerateStory\<close> requests the picture of page 0 and the effect, which
  runs on the change of phase with a cache still empty, requests it again. The first
  answer is cached; the second replaces it.
\<close>

theorem fetch_overwrites_counterexample:
  "map_option (cached_at 0)
     (run CVC [TypeTopic ''cat'', SubmitStory, StorySettled 0 (Inr cat_story),
               FetchSettled 0 (Inr (image_response ''AAAA'')) ''0.5''] init) =
     Some (Some ''data:image/png;base64,AAAA'') \<and>
   map_option (cached_at 0)
     (run CVC [TypeTopic ''cat'', SubmitStory, StorySettled 0 (Inr cat_story),
               FetchSettled 0 (Inr (image_response ''AAAA'')) ''0.5'',
               FetchSettled 0 (Inr (image_response ''BBBB'')) ''0.5''] init) =
     Some (Some ''data:image/png;base64,BBBB'')"
  by (simp add: evaluation)

section \<open>Navigation\<close>

text \<open>
  C8. From a reachable state, after any sequence of events, and so after any sequence of
  next-page and previous-page operations, a state in phase \<open>READING\<close> has a story and
  \<open>0 \<le> currentPageIndex < pageCount\<close>.
\<close>

theorem reading_index_valid:
  assumes "reachable v s" and "run v es s = Some s'" and "appState s' = READING"
  shows "\<exists>st. story s' = Some st \<and> 0 \<le> currentPageIndex s' \<and>
           currentPageIndex s' < int (length (pages st))"
proof -
  from assms(1,2) have "reachable v s'" by (rule reachable_run)
  then have "inv s'" by (rule reachable_inv)
  with assms(3) show ?thesis by (simp add: inv_def)
qed

theorem reading_index_valid_witness:
  "\<exists>s'. run CVC [TypeTopic ''dog'', SubmitStory, StorySettled 0 (Inr dog_story),
                  NextPage, PrevPage, NextPage] init = Some s' \<and>
        appState s' = READING \<and> story s' = Some dog_story \<and> currentPageIndex s' = 1 \<and>
        currentPageIndex s' < int (length (pages dog_story))"
proof -
  obtain s' where s: "run CVC [TypeTopic ''dog'', SubmitStory, StorySettled 0 (Inr dog_story),
                  NextPage, PrevPage, NextPage] init = Some s'"
    "appState s' = READING" "currentPageIndex s' = 1" "story s' = Some dog_story"
    using navigating_dog by blast
  from reading_index_valid [OF reachable_init s(1,2)] s show ?thesis by auto
qed

text \<open>
  C9. In a reachable state of phase \<open>READING\<close>, the next-page event on the last page
  (\<open>currentPageIndex = pageCount - 1\<close>) gives phase \<open>FINISHED\<close>, and on a page before
  the last it adds one to the index and the phase stays \<open>READING\<close>.
\<close>

theorem goToNextPage_transitions:
  assumes "reachable v s" and "appState s = READING"
  shows "\<exists>st s'. story s = Some st \<and> step v NextPage s = Inr s' \<and>
           (currentPageIndex s = int (length (pages st)) - 1 \<longrightarrow>
              appState s' = FINISHED \<and> currentPageIndex s' = currentPageIndex s) \<and>
           (currentPageIndex s < int (length (pages st)) - 1 \<longrightarrow>
              appState s' = READING \<and> currentPageIndex s' = currentPageIndex s + 1)"
proof -
  from assms obtain st where st: "story s = Some st" "0 \<le> currentPageIndex s"
    "currentPageIndex s < int (length (pages st))"
    using reachable_inv [of v s] by (auto simp: inv_def)
  show ?thesis
  proof (cases "currentPageIndex s < int (length (pages st)) - 1")
    case True
    let ?n = "s\<lparr> currentPageIndex := currentPageIndex s + 1 \<rparr>"
    from st True have n: "goToNextPage s = ?n"
      by (simp add: goToNextPage_def)
    from st True obtain s' where eff: "pageEffect ?n = Inr s'"
      using pageEffect_returns [of ?n st] by auto
    then have "core s' = core ?n" by (rule core_pageEffect)
    with assms(2) have "appState s' = READING" "currentPageIndex s' = currentPageIndex s + 1"
      by (simp_all add: core_def)
    moreover from n eff have "step v NextPage s = Inr s'"
      by (simp add: step_def deps_changed_def)
    ultimately show ?thesis using st True by auto
  next
    case False
    let ?n = "s\<lparr> appState := FINISHED \<rparr>"
    from st False have n: "goToNextPage s = ?n"
      by (simp add: goToNextPage_def)
    have "pageEffect ?n = Inr ?n"
      by (rule pageEffect_elsewhere) simp
    with n assms(2) have "step v NextPage s = Inr ?n"
      by (simp add: step_def deps_changed_def)
    with st False show ?thesis by auto
  qed
qed

theorem goToNextPage_transitions_witness:
  "\<exists>s s'. run CVC [TypeTopic ''dog'', SubmitStory, StorySettled 0 (Inr dog_story)] init = Some s \<and>
      appState s = READING \<and> step CVC NextPage s = Inr s' \<and> appState s' = READING \<and>
      currentPageIndex s' = 1"
proof -
  obtain s where s: "run CVC [TypeTopic ''dog'', SubmitStory, StorySettled 0 (Inr dog_story)] init = Some s"
    "appState s = READING" "currentPageIndex s = 0" "story s = Some dog_story"
    using reading_dog by blast
  from s(1) have "reachable CVC s"
    using reachable_run [OF reachable_init] by blast
  from goToNextPage_transitions [OF this s(2)] s show ?thesis
    by (auto simp: dog_story_def)
qed

end
